theory Spec2Isabelle
  imports Main "HOL-Library.Word"
begin

unbundle bit_operations_syntax

section \<open>Strings and bytes\<close>

text \<open>
  A JavaScript string is represented by the list of bytes of its UTF-8 encoding
  (\<^typ>\<open>string\<close>, one \<^typ>\<open>char\<close> per byte).  Environment variables and string
  literals of the scripts are well-formed, a file read with the \<^verbatim>\<open>'utf-8'\<close> option is
  decoded (\<open>utf8_decode\<close> below), and every delimiter the scripts search for is ASCII, so
  concatenation, search and splitting agree with the operations on UTF-16 code units.
\<close>

type_synonym byte = "8 word"
type_synonym word32 = "32 word"

definition utf8_bytes :: "string \<Rightarrow> byte list" where
  "utf8_bytes s = map of_char s"

section \<open>Node's \<^verbatim>\<open>crypto\<close> module: SHA-256 and HMAC\<close>

text \<open>
  \<^verbatim>\<open>crypto.createHmac('sha256', key)\<close> is library code; it is modelled by the
  functions it is specified to compute: SHA-256 (FIPS 180-4) and HMAC (RFC 2104).
\<close>

definition rotr :: "nat \<Rightarrow> word32 \<Rightarrow> word32" where
  "rotr n x = (drop_bit n x) OR (push_bit (32 - n) x)"

definition Ch :: "word32 \<Rightarrow> word32 \<Rightarrow> word32 \<Rightarrow> word32" where
  "Ch x y z = (x AND y) XOR (NOT x AND z)"

definition Maj :: "word32 \<Rightarrow> word32 \<Rightarrow> word32 \<Rightarrow> word32" where
  "Maj x y z = (x AND y) XOR (x AND z) XOR (y AND z)"

definition bsig0 :: "word32 \<Rightarrow> word32" where
  "bsig0 x = rotr 2 x XOR rotr 13 x XOR rotr 22 x"

definition bsig1 :: "word32 \<Rightarrow> word32" where
  "bsig1 x = rotr 6 x XOR rotr 11 x XOR rotr 25 x"

definition ssig0 :: "word32 \<Rightarrow> word32" where
  "ssig0 x = rotr 7 x XOR rotr 18 x XOR drop_bit 3 x"

definition ssig1 :: "word32 \<Rightarrow> word32" where
  "ssig1 x = rotr 17 x XOR rotr 19 x XOR drop_bit 10 x"

text \<open>
  The constants are given by their definition in the standard: the first 32 bits of the
  fractional parts of the cube roots (round constants) and of the square roots (initial hash
  value) of the first primes.  \<open>floor_root k x b 0\<close> is the largest \<open>r < 2 ^ (b + 1)\<close> with
  \<open>r ^ k \<le> x\<close>, found bit by bit.
\<close>

fun floor_root :: "nat \<Rightarrow> nat \<Rightarrow> nat \<Rightarrow> nat \<Rightarrow> nat" where
  "floor_root k x 0 r = (if (r + 1) ^ k \<le> x then r + 1 else r)"
| "floor_root k x (Suc b) r =
     floor_root k x b (if (r + 2 ^ Suc b) ^ k \<le> x then r + 2 ^ Suc b else r)"

definition first_primes :: "nat list" where
  "first_primes =
     [2, 3, 5, 7, 11, 13, 17, 19, 23, 29, 31, 37, 41, 43, 47, 53, 59, 61, 67, 71, 73, 79, 83, 89,
      97, 101, 103, 107, 109, 113, 127, 131, 137, 139, 149, 151, 157, 163, 167, 173, 179, 181,
      191, 193, 197, 199, 211, 223, 227, 229, 233, 239, 241, 251, 257, 263, 269, 271, 277, 281,
      283, 293, 307, 311]"

definition frac_root32 :: "nat \<Rightarrow> nat \<Rightarrow> word32" where
  "frac_root32 k p = of_nat (floor_root k (p * 2 ^ (32 * k)) 35 0)"

definition sha256_K :: "word32 list" where
  "sha256_K = map (frac_root32 3) first_primes"

record hstate =
  h_a :: word32
  h_b :: word32
  h_c :: word32
  h_d :: word32
  h_e :: word32
  h_f :: word32
  h_g :: word32
  h_h :: word32

definition sha256_H0 :: hstate where
  "sha256_H0 =
     (let r = (\<lambda>i. frac_root32 2 (first_primes ! i))
      in \<lparr>h_a = r 0, h_b = r 1, h_c = r 2, h_d = r 3, h_e = r 4, h_f = r 5, h_g = r 6, h_h = r 7\<rparr>)"

definition be32 :: "byte list \<Rightarrow> word32" where
  "be32 bs = foldl (\<lambda>acc b. push_bit 8 acc OR ucast b) 0 bs"

definition bytes_of_word32 :: "word32 \<Rightarrow> byte list" where
  "bytes_of_word32 w =
     [ucast (drop_bit 24 w), ucast (drop_bit 16 w), ucast (drop_bit 8 w), ucast w]"

definition bytes_of_len :: "nat \<Rightarrow> byte list" where
  "bytes_of_len n =
     (let w = (of_nat n :: 64 word) in map (\<lambda>i. ucast (drop_bit (8 * (7 - i)) w)) [0..<8])"

definition sha256_pad :: "byte list \<Rightarrow> byte list" where
  "sha256_pad m = m @ [0x80] @ replicate ((119 - length m mod 64) mod 64) 0
                    @ bytes_of_len (8 * length m)"

fun chunks :: "nat \<Rightarrow> 'a list \<Rightarrow> 'a list list" where
  "chunks n [] = []"
| "chunks n (x # xs) =
     (if n = 0 then [] else take n (x # xs) # chunks n (drop n (x # xs)))"

fun schedule :: "nat \<Rightarrow> word32 list \<Rightarrow> word32 list" where
  "schedule 0 w = w"
| "schedule (Suc n) w =
     (let t = length w in
      schedule n (w @ [ssig1 (w ! (t - 2)) + w ! (t - 7) + ssig0 (w ! (t - 15)) + w ! (t - 16)]))"

definition round_step :: "hstate \<Rightarrow> word32 \<times> word32 \<Rightarrow> hstate" where
  "round_step s kw =
     (let t1 = h_h s + bsig1 (h_e s) + Ch (h_e s) (h_f s) (h_g s) + fst kw + snd kw;
          t2 = bsig0 (h_a s) + Maj (h_a s) (h_b s) (h_c s)
      in \<lparr>h_a = t1 + t2, h_b = h_a s, h_c = h_b s, h_d = h_c s,
          h_e = h_d s + t1, h_f = h_e s, h_g = h_f s, h_h = h_g s\<rparr>)"

definition compress :: "hstate \<Rightarrow> byte list \<Rightarrow> hstate" where
  "compress s blk =
     (let w = schedule 48 (map be32 (chunks 4 blk));
          r = foldl round_step s (zip sha256_K w)
      in \<lparr>h_a = h_a s + h_a r, h_b = h_b s + h_b r, h_c = h_c s + h_c r, h_d = h_d s + h_d r,
          h_e = h_e s + h_e r, h_f = h_f s + h_f r, h_g = h_g s + h_g r, h_h = h_h s + h_h r\<rparr>)"

definition sha256 :: "byte list \<Rightarrow> byte list" where
  "sha256 m =
     (let s = foldl compress sha256_H0 (chunks 64 (sha256_pad m))
      in concat (map bytes_of_word32
                  [h_a s, h_b s, h_c s, h_d s, h_e s, h_f s, h_g s, h_h s]))"

definition hmac_sha256 :: "byte list \<Rightarrow> byte list \<Rightarrow> byte list" where
  "hmac_sha256 key msg =
     (let k0 = (if length key > 64 then sha256 key else key);
          k = k0 @ replicate (64 - length k0) 0
      in sha256 (map (\<lambda>b. b XOR 0x5c) k @ sha256 (map (\<lambda>b. b XOR 0x36) k @ msg)))"

text \<open>The \<^verbatim>\<open>'hex'\<close> output encoding: two lower-case digits per byte.\<close>

definition hexchars :: string where
  "hexchars = ''0123456789abcdef''"

definition hexdigit :: "nat \<Rightarrow> char" where
  "hexdigit n = hexchars ! n"

definition hex_of_byte :: "byte \<Rightarrow> string" where
  "hex_of_byte b = [hexdigit (unat b div 16), hexdigit (unat b mod 16)]"

definition hex :: "byte list \<Rightarrow> string" where
  "hex bs = concat (map hex_of_byte bs)"

text \<open>
  An \<^verbatim>\<open>Hmac\<close> object is mutable: \<^verbatim>\<open>update\<close> appends to the data it
  has absorbed and returns the object itself.  The objects of a process live in a heap, addressed
  by their allocation index; a reference is only ever obtained from \<open>createHmac\<close>, so it is
  always in range.
\<close>

record hmac_obj =
  hmac_key :: "byte list"
  hmac_data :: "byte list"

type_synonym hmac_heap = "hmac_obj list"

definition createHmac :: "string \<Rightarrow> hmac_heap \<Rightarrow> nat \<times> hmac_heap" where
  "createHmac key hp = (length hp, hp @ [\<lparr>hmac_key = utf8_bytes key, hmac_data = []\<rparr>])"

definition hmac_update :: "nat \<Rightarrow> string \<Rightarrow> hmac_heap \<Rightarrow> nat \<times> hmac_heap" where
  "hmac_update ref d hp =
     (ref, hp[ref := (hp ! ref)\<lparr>hmac_data := hmac_data (hp ! ref) @ utf8_bytes d\<rparr>])"

definition hmac_digest_hex :: "nat \<Rightarrow> hmac_heap \<Rightarrow> string \<times> hmac_heap" where
  "hmac_digest_hex ref hp =
     (hex (hmac_sha256 (hmac_key (hp ! ref)) (hmac_data (hp ! ref))), hp)"

section \<open>\<^verbatim>\<open>scripts/utils/approval-token.mjs\<close>\<close>

definition generateApprovalToken :: "string \<Rightarrow> string \<Rightarrow> hmac_heap \<Rightarrow> string \<times> hmac_heap" where
  "generateApprovalToken runId secret hp =
     (let (h, hp1) = createHmac secret hp;
          (h', hp2) = hmac_update h runId hp1
      in hmac_digest_hex h' hp2)"

definition buildApprovalUrl :: "string \<Rightarrow> string \<Rightarrow> string \<Rightarrow> string" where
  "buildApprovalUrl runId token deploymentUrl =
     deploymentUrl @ ''/api/approve?token='' @ token @ ''&run_id='' @ runId"


section \<open>The Node runtime shared by the scripts\<close>

text \<open>
  \<open>process.env\<close> (once \<^verbatim>\<open>dotenv\<close>'s \<^verbatim>\<open>config()\<close> has run) is a partial map.
  \<^verbatim>\<open>!x\<close> on one of its values is true when the variable is absent or empty.
\<close>

type_synonym env = "string \<rightharpoonup> string"

definition env_missing :: "string option \<Rightarrow> bool" where
  "env_missing v = (case v of None \<Rightarrow> True | Some s \<Rightarrow> s = [])"

text \<open>An undefined variable is printed as \<^verbatim>\<open>undefined\<close> by a template literal.\<close>

definition env_text :: "string option \<Rightarrow> string" where
  "env_text v = (case v of None \<Rightarrow> ''undefined'' | Some s \<Rightarrow> s)"

fun join :: "string \<Rightarrow> string list \<Rightarrow> string" where
  "join sep [] = []"
| "join sep [x] = x"
| "join sep (x # y # ys) = x @ sep @ join sep (y # ys)"

text \<open>\<^verbatim>\<open>s.split(sep)\<close> for a one-character separator.\<close>

fun split_on :: "char \<Rightarrow> string \<Rightarrow> string list" where
  "split_on sep [] = [[]]"
| "split_on sep (c # cs) =
     (if c = sep then [] # split_on sep cs
      else (case split_on sep cs of [] \<Rightarrow> [[c]] | p # ps \<Rightarrow> (c # p) # ps))"

text \<open>
  \<^verbatim>\<open>s.trim()\<close> removes the white space and line terminators of ECMAScript from both
  ends; \<open>js_whitespace\<close> lists their UTF-8 encodings (U+0009 to U+000D, U+0020, U+00A0, U+1680,
  U+2000 to U+200A, U+2028, U+2029, U+202F, U+205F, U+3000, U+FEFF).
\<close>

definition js_whitespace :: "string list" where
  "js_whitespace =
     [[CHR 0x09], [CHR 0x0A], [CHR 0x0B], [CHR 0x0C], [CHR 0x0D], [CHR 0x20],
      [CHR 0xC2, CHR 0xA0], [CHR 0xE1, CHR 0x9A, CHR 0x80],
      [CHR 0xE2, CHR 0x80, CHR 0x80], [CHR 0xE2, CHR 0x80, CHR 0x81],
      [CHR 0xE2, CHR 0x80, CHR 0x82], [CHR 0xE2, CHR 0x80, CHR 0x83],
      [CHR 0xE2, CHR 0x80, CHR 0x84], [CHR 0xE2, CHR 0x80, CHR 0x85],
      [CHR 0xE2, CHR 0x80, CHR 0x86], [CHR 0xE2, CHR 0x80, CHR 0x87],
      [CHR 0xE2, CHR 0x80, CHR 0x88], [CHR 0xE2, CHR 0x80, CHR 0x89],
      [CHR 0xE2, CHR 0x80, CHR 0x8A], [CHR 0xE2, CHR 0x80, CHR 0xA8],
      [CHR 0xE2, CHR 0x80, CHR 0xA9], [CHR 0xE2, CHR 0x80, CHR 0xAF],
      [CHR 0xE2, CHR 0x81, CHR 0x9F], [CHR 0xE3, CHR 0x80, CHR 0x80],
      [CHR 0xEF, CHR 0xBB, CHR 0xBF]]"

definition starts_with :: "string \<Rightarrow> string \<Rightarrow> bool" where
  "starts_with s p = (take (length p) s = p)"

text \<open>\<open>strip_leading ws n s\<close> removes leading members of \<open>ws\<close> from \<open>s\<close>, at most \<open>n\<close> of them;
  no more than \<open>length s\<close> can be removed in all.\<close>

fun strip_leading :: "string list \<Rightarrow> nat \<Rightarrow> string \<Rightarrow> string" where
  "strip_leading ws 0 s = s"
| "strip_leading ws (Suc n) s =
     (case find (\<lambda>p. p \<noteq> [] \<and> starts_with s p) ws of
        None \<Rightarrow> s
      | Some p \<Rightarrow> strip_leading ws n (drop (length p) s))"

definition trim :: "string \<Rightarrow> string" where
  "trim s =
     (let t = strip_leading js_whitespace (length s) s
      in rev (strip_leading (map rev js_whitespace) (length t) (rev t)))"

text \<open>\<^verbatim>\<open>path.join(process.cwd(), name)\<close> on POSIX; the working directory is absolute and normalised.\<close>

definition path_join :: "string \<Rightarrow> string \<Rightarrow> string" where
  "path_join dir name = (if dir = ''/'' then dir @ name else dir @ ''/'' @ name)"

text \<open>
  \<^verbatim>\<open>fs.readFileSync(path, 'utf-8')\<close> decodes the bytes of the file: a well-formed sequence
  gives its character, and every maximal ill-formed part gives U+FFFD (bytes \<^verbatim>\<open>EF BF BD\<close> in
  the representation used here).  A lead byte announces how many continuation bytes follow and
  the range of the first of them; the first byte that does not fit ends the sequence in error
  and is decoded again as the start of the next one.  A byte order mark is kept.
\<close>

definition byte_val :: "char \<Rightarrow> nat" where
  "byte_val c = of_char c"

definition replacement_char :: string where
  "replacement_char = [CHR 0xEF, CHR 0xBF, CHR 0xBD]"

definition utf8_lead :: "nat \<Rightarrow> (nat \<times> nat \<times> nat) option" where
  "utf8_lead b =
     (if 194 \<le> b \<and> b \<le> 223 then Some (1, 128, 191)
      else if b = 224 then Some (2, 160, 191)
      else if b = 237 then Some (2, 128, 159)
      else if 225 \<le> b \<and> b \<le> 239 then Some (2, 128, 191)
      else if b = 240 then Some (3, 144, 191)
      else if b = 244 then Some (3, 128, 143)
      else if 241 \<le> b \<and> b \<le> 243 then Some (3, 128, 191)
      else None)"

text \<open>The continuation bytes accepted after a lead byte: at most \<open>n\<close>, the first within
  \<open>lo\<close> and \<open>hi\<close>, the others within \<^verbatim>\<open>80\<close> and \<^verbatim>\<open>BF\<close>.\<close>

fun utf8_trail :: "nat \<Rightarrow> nat \<Rightarrow> nat \<Rightarrow> string \<Rightarrow> string" where
  "utf8_trail n lo hi [] = []"
| "utf8_trail n lo hi (c # cs) =
     (if 0 < n \<and> lo \<le> byte_val c \<and> byte_val c \<le> hi
      then c # utf8_trail (n - 1) 128 191 cs else [])"

fun utf8_decode :: "string \<Rightarrow> string" where
  "utf8_decode [] = []"
| "utf8_decode (c # cs) =
     (if byte_val c < 128 then c # utf8_decode cs
      else
        (case utf8_lead (byte_val c) of
           None \<Rightarrow> replacement_char @ utf8_decode cs
         | Some (n, lo, hi) \<Rightarrow>
             (let t = utf8_trail n lo hi cs
              in (if length t = n then c # t else replacement_char)
                 @ utf8_decode (drop (length t) cs))))"

section \<open>\<^verbatim>\<open>scripts/send-email.mjs\<close>\<close>

record mail =
  mail_from :: string
  mail_to :: string
  mail_subject :: string
  mail_html :: string

datatype mailer_event =
    MLog string
  | MError string
  | MExists string
  | MReadFile string
  | MSendMail mail

text \<open>
  What a run of the script depends on: the environment, the working directory, the files it can
  read (their stored bytes), the rendering of today's date (\<^verbatim>\<open>toLocaleDateString\<close>) and the transport's answer
  to \<^verbatim>\<open>sendMail\<close> (\<open>Inl\<close> the message of the error it rejects with, \<open>Inr\<close> the
  server's response).
\<close>

record mailer_world =
  m_env :: env
  m_cwd :: string
  m_files :: "string \<rightharpoonup> string"
  m_date :: string
  m_smtp :: "mail \<Rightarrow> string + string"

record mailer_outcome =
  m_exit :: nat
  m_events :: "mailer_event list"

definition IS_TEST_EMAIL :: "env \<Rightarrow> bool" where
  "IS_TEST_EMAIL e = (e ''IS_TEST_EMAIL'' = Some ''true'')"

definition missingVars :: "env \<Rightarrow> string list" where
  "missingVars e =
     (if env_missing (e ''GMAIL_FROM_EMAIL'') then [''GMAIL_FROM_EMAIL''] else [])
     @ (if env_missing (e ''GMAIL_APP_PASSWORD'') then [''GMAIL_APP_PASSWORD''] else [])
     @ (if env_missing (e ''EMAIL_RECIPIENTS'') then [''EMAIL_RECIPIENTS''] else [])
     @ (if IS_TEST_EMAIL e then
          (if env_missing (e ''APPROVAL_TOKEN_SECRET'')
           then [''APPROVAL_TOKEN_SECRET (required for test email approval button)''] else [])
          @ (if env_missing (e ''VERCEL_DEPLOYMENT_URL'')
             then [''VERCEL_DEPLOYMENT_URL (required for test email approval button)''] else [])
          @ (if env_missing (e ''GITHUB_RUN_ID'')
             then [''GITHUB_RUN_ID (required for test email approval button)''] else [])
        else [])"

subsection \<open>\<open>injectApprovalButton\<close>\<close>

text \<open>\<^verbatim>\<open>s.includes(sub)\<close>: \<open>sub\<close> occurs in \<open>s\<close>, compared exactly.\<close>

fun str_includes :: "string \<Rightarrow> string \<Rightarrow> bool" where
  "str_includes [] sub = (sub = [])"
| "str_includes (c # cs) sub = (starts_with (c # cs) sub \<or> str_includes cs sub)"

text \<open>
  The regular expression \<^verbatim>\<open>/(<body[^>]*>)/i\<close>.  Under the \<^verbatim>\<open>i\<close> flag the letters of
  \<^verbatim>\<open><body\<close> match in either case (no character outside ASCII is canonicalised to an ASCII
  letter).  \<^verbatim>\<open>[^>]*\<close> is greedy but cannot cross a \<^verbatim>\<open>>\<close>, so at a position where
  \<^verbatim>\<open><body\<close> starts the expression matches up to the next \<^verbatim>\<open>>\<close>, and fails when none
  follows.  \<open>search_body_tag\<close> returns the leftmost match with the text before and after it.
\<close>

definition to_upper_ascii :: "char \<Rightarrow> char" where
  "to_upper_ascii c =
     (case map_of (zip ''abcdefghijklmnopqrstuvwxyz'' ''ABCDEFGHIJKLMNOPQRSTUVWXYZ'') c of
        None \<Rightarrow> c
      | Some u \<Rightarrow> u)"

definition starts_with_ci :: "string \<Rightarrow> string \<Rightarrow> bool" where
  "starts_with_ci s p =
     (length p \<le> length s \<and> map to_upper_ascii (take (length p) s) = map to_upper_ascii p)"

definition match_body_tag :: "string \<Rightarrow> (string \<times> string) option" where
  "match_body_tag s =
     (if starts_with_ci s ''<body'' then
        (let r = drop 5 s in
         if CHR ''>'' \<in> set r
         then Some (take 5 s @ takeWhile (\<lambda>c. c \<noteq> CHR ''>'') r @ ''>'',
                    tl (dropWhile (\<lambda>c. c \<noteq> CHR ''>'') r))
         else None)
      else None)"

fun search_body_tag :: "string \<Rightarrow> (string \<times> string \<times> string) option" where
  "search_body_tag [] = None"
| "search_body_tag (c # cs) =
     (case match_body_tag (c # cs) of
        Some (m, post) \<Rightarrow> Some ([], m, post)
      | None \<Rightarrow>
          (case search_body_tag cs of
             None \<Rightarrow> None
           | Some (pre, m, post) \<Rightarrow> Some (c # pre, m, post)))"

text \<open>
  The replacement string of \<^verbatim>\<open>String.prototype.replace\<close> is a template
  (\<^verbatim>\<open>GetSubstitution\<close>): \<^verbatim>\<open>$$\<close> stands for a dollar sign, \<^verbatim>\<open>$&\<close> for the match,
  \<^verbatim>\<open>$`\<close> and \<^verbatim>\<open>$'\<close> for the text before and after it, and \<^verbatim>\<open>$1\<close> or \<^verbatim>\<open>$01\<close> for
  the only capture group of the expression, which is the whole match.  Any other use of
  \<^verbatim>\<open>$\<close> is literal.
\<close>

fun get_substitution :: "string \<Rightarrow> string \<Rightarrow> string \<Rightarrow> string \<Rightarrow> string" where
  "get_substitution m pre post [] = []"
| "get_substitution m pre post [c] = [c]"
| "get_substitution m pre post (c # d # t) =
     (if c \<noteq> CHR ''$'' then c # get_substitution m pre post (d # t)
      else if d = CHR ''$'' then CHR ''$'' # get_substitution m pre post t
      else if d = CHR ''&'' then m @ get_substitution m pre post t
      else if d = CHR 0x60 then pre @ get_substitution m pre post t
      else if d = CHR 0x27 then post @ get_substitution m pre post t
      else if d = CHR ''1'' then m @ get_substitution m pre post t
      else (case t of
              e # t' \<Rightarrow>
                if d = CHR ''0'' \<and> e = CHR ''1'' then m @ get_substitution m pre post t'
                else CHR ''$'' # get_substitution m pre post (d # t)
            | [] \<Rightarrow> CHR ''$'' # get_substitution m pre post (d # t)))"

definition replace_body_tag :: "string \<Rightarrow> string \<Rightarrow> string" where
  "replace_body_tag s replacement =
     (case search_body_tag s of
        None \<Rightarrow> s
      | Some (pre, m, post) \<Rightarrow>
          pre @ get_substitution m pre post replacement @ post)"

definition approvalButtonHtml :: "string \<Rightarrow> string" where
  \<open>approvalButtonHtml approvalUrl =
     ''\<newline><div style="background: #f0fdf4; border: 1px solid #86efac; border-radius: 8px; padding: 20px; margin-bottom: 20px; text-align: center;">\<newline>''
     @ ''  <p style="margin: 0 0 12px 0; color: #166534; font-weight: bold;">''
     @ [CHR 0xF0, CHR 0x9F, CHR 0x93, CHR 0xA7]
     @ '' Preview: Click below to approve and send to all recipients</p>\<newline>''
     @ ''  <a href="'' @ approvalUrl
     @ ''" style="display: inline-block; background: #22c55e; color: white; padding: 12px 24px; border-radius: 6px; text-decoration: none; font-weight: bold; border: none; cursor: pointer;">''
     @ [CHR 0xE2, CHR 0x9C, CHR 0x85] @ '' Approve & Send</a>\<newline>''
     @ ''  <p style="margin: 12px 0 0 0; color: #666; font-size: 12px;">This link expires in 24 hours.</p>\<newline>''
     @ ''</div>\<newline>  ''\<close>

text \<open>
  The module constants \<^verbatim>\<open>GITHUB_RUN_ID\<close>, \<^verbatim>\<open>APPROVAL_TOKEN_SECRET\<close> and
  \<^verbatim>\<open>VERCEL_DEPLOYMENT_URL\<close> that the function reads are its first three arguments.
\<close>

definition injectApprovalButton ::
  "string \<Rightarrow> string \<Rightarrow> string \<Rightarrow> string \<Rightarrow> hmac_heap \<Rightarrow> string \<times> hmac_heap" where
  "injectApprovalButton GITHUB_RUN_ID APPROVAL_TOKEN_SECRET VERCEL_DEPLOYMENT_URL htmlContent hp =
     (let (token, hp') = generateApprovalToken GITHUB_RUN_ID APPROVAL_TOKEN_SECRET hp;
          approvalUrl = buildApprovalUrl GITHUB_RUN_ID token VERCEL_DEPLOYMENT_URL
      in if str_includes htmlContent ''<body''
         then (replace_body_tag htmlContent (''$1'' @ approvalButtonHtml approvalUrl), hp')
         else (approvalButtonHtml approvalUrl @ htmlContent, hp'))"

subsection \<open>\<open>sendEmail\<close> and the script\<close>

definition parse_recipients :: "string \<Rightarrow> string list" where
  "parse_recipients s = filter (\<lambda>e. length e > 0) (map trim (split_on CHR '','' s))"

definition mailer_fail :: "mailer_event list \<Rightarrow> string \<Rightarrow> mailer_outcome" where
  "mailer_fail evs msg =
     \<lparr>m_exit = 1, m_events = evs @ [MError (''Error sending email: '' @ msg)]\<rparr>"

text \<open>
  The approval button of a test email.  The script's validation guarantees the three variables;
  were one of the first two undefined, \<^verbatim>\<open>createHmac\<close> or \<^verbatim>\<open>update\<close> would throw a
  \<^verbatim>\<open>TypeError\<close>, and an undefined deployment URL is printed as \<^verbatim>\<open>undefined\<close> by the
  template literal.  The process starts with no \<^verbatim>\<open>Hmac\<close> object.
\<close>

definition test_email_html :: "env \<Rightarrow> string \<Rightarrow> string + string" where
  \<open>test_email_html e content =
     (case e ''APPROVAL_TOKEN_SECRET'' of
        None \<Rightarrow> Inl ''The "key" argument must be of type string or an instance of ArrayBuffer, Buffer, TypedArray, DataView, KeyObject, or CryptoKey. Received undefined''
      | Some secret \<Rightarrow>
          (case e ''GITHUB_RUN_ID'' of
             None \<Rightarrow> Inl ''The "data" argument must be of type string or an instance of Buffer, TypedArray, or DataView. Received undefined''
           | Some runId \<Rightarrow>
               Inr (fst (injectApprovalButton runId secret
                      (env_text (e ''VERCEL_DEPLOYMENT_URL''))
                      content []))))\<close>

definition sendEmail :: "mailer_world \<Rightarrow> mailer_outcome" where
  "sendEmail w =
     (let e = m_env w;
          reportPath = path_join (m_cwd w) ''NOTION_PROJECT_STATUS.html''
      in case m_files w reportPath of
           None \<Rightarrow> mailer_fail [MExists reportPath] (''Report file not found: '' @ reportPath)
         | Some stored \<Rightarrow>
             (let content = utf8_decode stored;
                  evs0 = [MExists reportPath, MReadFile reportPath]
              in case (if IS_TEST_EMAIL e then test_email_html e content else Inr content) of
                   Inl msg \<Rightarrow> mailer_fail evs0 msg
                 | Inr htmlContent \<Rightarrow>
                     (case e ''EMAIL_RECIPIENTS'' of
                        None \<Rightarrow>
                          mailer_fail evs0 ''Cannot read properties of undefined (reading 'split')''
                      | Some rs \<Rightarrow>
                          (let recipients = parse_recipients rs
                           in if length recipients = 0
                              then mailer_fail evs0 ''No valid email recipients provided''
                              else
                                (let subject =
                                       (if IS_TEST_EMAIL e
                                        then ''[TEST] Product Status Update - '' @ m_date w
                                        else ''Product Status Update - '' @ m_date w);
                                     mailOptions =
                                       \<lparr>mail_from =
                                          (case e ''GMAIL_FROM_EMAIL'' of None \<Rightarrow> [] | Some a \<Rightarrow> a),
                                        mail_to = join '', '' recipients,
                                        mail_subject = subject,
                                        mail_html = htmlContent\<rparr>;
                                     evs1 = evs0
                                       @ [MLog (''Preparing to send report to: ''
                                                 @ join '', '' recipients),
                                          MLog ''\<newline>Sending email...'',
                                          MSendMail mailOptions]
                                 in case m_smtp w mailOptions of
                                      Inl msg \<Rightarrow> mailer_fail evs1 msg
                                    | Inr response \<Rightarrow>
                                        \<lparr>m_exit = 0,
                                         m_events = evs1
                                           @ [MLog (''\<newline>'' @ [CHR 0xE2, CHR 0x9C, CHR 0x85]
                                                     @ '' Email sent successfully!''),
                                              MLog (''Response ID: '' @ response),
                                              MLog (''Subject: '' @ subject),
                                              MLog (''Recipients: '' @ join '', '' recipients)]
                                           @ (if IS_TEST_EMAIL e
                                              then [MLog (''\<newline>''
                                                     @ [CHR 0xF0, CHR 0x9F, CHR 0x93, CHR 0xA7]
                                                     @ '' Test email includes approval button. Click to trigger final send.'')]
                                              else [])\<rparr>)))))"

definition send_email_script :: "mailer_world \<Rightarrow> mailer_outcome" where
  "send_email_script w =
     (if length (missingVars (m_env w)) > 0
      then \<lparr>m_exit = 1,
            m_events = [MError (''Error: Missing required environment variables: ''
                                 @ join '', '' (missingVars (m_env w)))]\<rparr>
      else sendEmail w)"

definition sent_mails :: "mailer_event list \<Rightarrow> mail list" where
  "sent_mails evs = concat (map (\<lambda>ev. case ev of MSendMail m \<Rightarrow> [m] | _ \<Rightarrow> []) evs)"

section \<open>\<^verbatim>\<open>scripts/fetch-notion-data.mjs\<close>\<close>

subsection \<open>JSON values and the JavaScript operators applied to them\<close>

text \<open>
  The values the script handles come out of \<^verbatim>\<open>Response.json()\<close>.  \<open>JUndefined\<close> is what
  reading an absent property gives.  A number is represented by its canonical rendering
  (\<^verbatim>\<open>Number::toString\<close>), which is all the script observes of it; an object by its own
  properties, each key once.
\<close>

datatype json =
    JUndefined
  | JNull
  | JBool bool
  | JNum string
  | JStr string
  | JArr "json list"
  | JObj "(string \<times> json) list"

definition nullish :: "json \<Rightarrow> bool" where
  "nullish v = (case v of JUndefined \<Rightarrow> True | JNull \<Rightarrow> True | _ \<Rightarrow> False)"

definition falsy :: "json \<Rightarrow> bool" where
  "falsy v =
     (case v of
        JUndefined \<Rightarrow> True
      | JNull \<Rightarrow> True
      | JBool b \<Rightarrow> \<not> b
      | JNum n \<Rightarrow> n = ''0'' \<or> n = ''NaN''
      | JStr s \<Rightarrow> s = []
      | _ \<Rightarrow> False)"

text \<open>\<^verbatim>\<open>a || b\<close>.\<close>

definition or_else :: "json \<Rightarrow> json \<Rightarrow> json" where
  "or_else a b = (if falsy a then b else a)"

definition bind_res :: "'e + 'a \<Rightarrow> ('a \<Rightarrow> 'e + 'b) \<Rightarrow> 'e + 'b" where
  "bind_res r f = (case r of Inl e \<Rightarrow> Inl e | Inr v \<Rightarrow> f v)"

text \<open>
  Property reads.  Exceptions are represented by their message (\<open>Inl\<close>), in the wording of V8.
  The names read this way (\<^verbatim>\<open>properties\<close>, \<^verbatim>\<open>id\<close>, \<^verbatim>\<open>url\<close>, \<^verbatim>\<open>results\<close>,
  \<^verbatim>\<open>title\<close>, \<^verbatim>\<open>plain_text\<close>, \<^verbatim>\<open>Name\<close>, \<^verbatim>\<open>Status\<close>, \<^verbatim>\<open>status\<close>, \<^verbatim>\<open>name\<close>,
  \<^verbatim>\<open>Priority\<close>, \<^verbatim>\<open>select\<close>, \<^verbatim>\<open>Updates\<close>, \<^verbatim>\<open>rich_text\<close>, \<^verbatim>\<open>Client\<close>) are
  not properties of strings, numbers, booleans or arrays, nor inherited by plain objects.
\<close>

definition cannot_read :: "string \<Rightarrow> string \<Rightarrow> string" where
  "cannot_read what k =
     ''Cannot read properties of '' @ what @ '' (reading '' @ [CHR 0x27] @ k @ [CHR 0x27] @ '')''"

definition own_prop :: "(string \<times> json) list \<Rightarrow> string \<Rightarrow> json" where
  "own_prop kvs k = (case map_of kvs k of None \<Rightarrow> JUndefined | Some v \<Rightarrow> v)"

text \<open>\<^verbatim>\<open>v.k\<close>\<close>

definition get_prop :: "json \<Rightarrow> string \<Rightarrow> string + json" where
  "get_prop v k =
     (case v of
        JUndefined \<Rightarrow> Inl (cannot_read ''undefined'' k)
      | JNull \<Rightarrow> Inl (cannot_read ''null'' k)
      | JObj kvs \<Rightarrow> Inr (own_prop kvs k)
      | _ \<Rightarrow> Inr JUndefined)"

text \<open>\<^verbatim>\<open>v?.k\<close>\<close>

definition opt_prop :: "json \<Rightarrow> string \<Rightarrow> json" where
  "opt_prop v k = (case v of JObj kvs \<Rightarrow> own_prop kvs k | _ \<Rightarrow> JUndefined)"

text \<open>
  \<^verbatim>\<open>v?.[0]\<close>.  On a non-empty string it is the string of its first code unit; the script
  only reads \<^verbatim>\<open>?.plain_text\<close> from the result, which is undefined for every string.
\<close>

definition opt_index0 :: "json \<Rightarrow> json" where
  "opt_index0 v =
     (case v of
        JArr xs \<Rightarrow> (case xs of [] \<Rightarrow> JUndefined | x # _ \<Rightarrow> x)
      | JStr s \<Rightarrow> (if s = [] then JUndefined else JStr (take 1 s))
      | JObj kvs \<Rightarrow> own_prop kvs ''0''
      | _ \<Rightarrow> JUndefined)"

text \<open>
  \<^verbatim>\<open>String(v)\<close>, as a template literal and \<^verbatim>\<open>Array.prototype.join\<close> apply it.  An array
  is joined with commas; \<open>join\<close> renders \<^verbatim>\<open>undefined\<close> and \<^verbatim>\<open>null\<close> elements as the
  empty string.  A plain object is \<^verbatim>\<open>[object Object]\<close>, unless it has an own property
  \<^verbatim>\<open>toString\<close>: that cannot be a function, and the conversion throws.
\<close>

fun to_string :: "json \<Rightarrow> string + string"
  and join_elems :: "string \<Rightarrow> json list \<Rightarrow> string + string" where
  "to_string JUndefined = Inr ''undefined''"
| "to_string JNull = Inr ''null''"
| "to_string (JBool b) = Inr (if b then ''true'' else ''false'')"
| "to_string (JNum n) = Inr n"
| "to_string (JStr s) = Inr s"
| "to_string (JArr xs) = join_elems '','' xs"
| "to_string (JObj kvs) =
     (if map_of kvs ''toString'' = None then Inr ''[object Object]''
      else Inl ''Cannot convert object to primitive value'')"
| "join_elems sep [] = Inr []"
| "join_elems sep (x # xs) =
     (case (case x of JUndefined \<Rightarrow> Inr [] | JNull \<Rightarrow> Inr [] | _ \<Rightarrow> to_string x) of
        Inl e \<Rightarrow> Inl e
      | Inr s \<Rightarrow>
          (if xs = [] then Inr s
           else (case join_elems sep xs of Inl e \<Rightarrow> Inl e | Inr r \<Rightarrow> Inr (s @ sep @ r))))"

definition digit_char :: "nat \<Rightarrow> char" where
  "digit_char d = ''0123456789'' ! d"

function string_of_nat :: "nat \<Rightarrow> string" where
  "string_of_nat n =
     (if n < 10 then [digit_char n] else string_of_nat (n div 10) @ [digit_char (n mod 10)])"
  by pat_completeness auto
termination
  by (relation "measure id") auto

text \<open>The \<^verbatim>\<open>length\<close> of a string counts UTF-16 code units.\<close>

definition utf16_length :: "string \<Rightarrow> nat" where
  "utf16_length s =
     length (filter (\<lambda>c. \<not> (128 \<le> (of_char c :: nat) \<and> (of_char c :: nat) < 192)) s)
     + length (filter (\<lambda>c. 240 \<le> (of_char c :: nat)) s)"

text \<open>The text of \<^verbatim>\<open>${r.length}\<close>.\<close>

definition length_text :: "json \<Rightarrow> string + string" where
  "length_text r =
     (case r of
        JUndefined \<Rightarrow> Inl (cannot_read ''undefined'' ''length'')
      | JNull \<Rightarrow> Inl (cannot_read ''null'' ''length'')
      | JArr xs \<Rightarrow> Inr (string_of_nat (length xs))
      | JStr s \<Rightarrow> Inr (string_of_nat (utf16_length s))
      | JObj kvs \<Rightarrow> to_string (own_prop kvs ''length'')
      | _ \<Rightarrow> Inr ''undefined'')"

subsection \<open>Normalising one item\<close>

record item =
  item_id :: json
  item_name :: json
  item_status :: json
  item_priority :: json
  item_updates :: json
  item_client :: json
  item_url :: json

text \<open>\<^verbatim>\<open>ts.map(t => t.plain_text)\<close>\<close>

fun map_plain_text :: "json list \<Rightarrow> string + json list" where
  "map_plain_text [] = Inr []"
| "map_plain_text (t # ts) =
     bind_res (get_prop t ''plain_text'') (\<lambda>v.
     bind_res (map_plain_text ts) (\<lambda>vs. Inr (v # vs)))"

text \<open>\<^verbatim>\<open>props.Updates?.rich_text?.map(t => t.plain_text).join('') || ''\<close>\<close>

definition updates_of :: "json \<Rightarrow> string + json" where
  "updates_of props =
     bind_res (get_prop props ''Updates'') (\<lambda>u.
       let rich_text = opt_prop u ''rich_text''
       in if nullish rich_text then Inr (or_else JUndefined (JStr []))
          else (case rich_text of
                  JArr ts \<Rightarrow>
                    bind_res (map_plain_text ts) (\<lambda>vs.
                    bind_res (join_elems [] vs) (\<lambda>s. Inr (or_else (JStr s) (JStr []))))
                | _ \<Rightarrow> Inl ''props.Updates?.rich_text?.map is not a function''))"

text \<open>The callback of \<^verbatim>\<open>dbData.results.map\<close>.\<close>

definition normalize_item :: "json \<Rightarrow> string + item" where
  "normalize_item it =
     bind_res (get_prop it ''properties'') (\<lambda>props.
     bind_res (get_prop it ''id'') (\<lambda>id.
     bind_res (get_prop props ''Name'') (\<lambda>Name.
     bind_res (get_prop props ''Status'') (\<lambda>Status.
     bind_res (get_prop props ''Priority'') (\<lambda>Priority.
     bind_res (updates_of props) (\<lambda>updates.
     bind_res (get_prop props ''Client'') (\<lambda>Client.
     bind_res (get_prop it ''url'') (\<lambda>url.
       Inr \<lparr>item_id = id,
            item_name =
              or_else (opt_prop (opt_index0 (opt_prop Name ''title'')) ''plain_text'')
                      (JStr ''Untitled''),
            item_status = or_else (opt_prop (opt_prop Status ''status'') ''name'') (JStr ''No status''),
            item_priority =
              or_else (opt_prop (opt_prop Priority ''select'') ''name'') (JStr ''No priority''),
            item_updates = updates,
            item_client = or_else (opt_prop (opt_prop Client ''select'') ''name'') (JStr ''Unknown''),
            item_url = url\<rparr>))))))))"

fun map_items :: "json list \<Rightarrow> string + item list" where
  "map_items [] = Inr []"
| "map_items (it # its) =
     bind_res (normalize_item it) (\<lambda>r.
     bind_res (map_items its) (\<lambda>rs. Inr (r # rs)))"

subsection \<open>The run\<close>

record response =
  resp_status :: nat
  resp_text :: string
  resp_json :: "string + json"

definition resp_ok :: "response \<Rightarrow> bool" where
  "resp_ok r = (200 \<le> resp_status r \<and> resp_status r \<le> 299)"

record request =
  req_method :: string
  req_url :: string
  req_headers :: "(string \<times> string) list"
  req_body :: "string option"

datatype fetch_result = Rejected string | Resolved response

record fetch_output =
  out_database_title :: json
  out_database_id :: string
  out_items :: "item list"
  out_fetchedAt :: string
  out_itemCount :: nat

datatype fetcher_event =
    FLog string
  | FError string
  | FRequest request
  | FExists string
  | FMkdir string
  | FWriteFile string string

text \<open>
  What a run depends on: the environment; the answer to each request (\<open>Rejected\<close> when
  \<^verbatim>\<open>fetch\<close> itself fails; \<open>resp_json\<close> is the outcome of \<^verbatim>\<open>json()\<close>, \<open>Inl\<close> the message
  of its \<^verbatim>\<open>SyntaxError\<close>); the working directory; which paths exist; whether
  \<^verbatim>\<open>mkdirSync\<close> and \<^verbatim>\<open>writeFileSync\<close> fail, and with what message; the files; the clock
  (\<^verbatim>\<open>toISOString\<close>); and \<^verbatim>\<open>JSON.stringify(\<cdot>, null, 2)\<close>, a function of the runtime.
\<close>

record fetcher_world =
  f_env :: env
  f_fetch :: "request \<Rightarrow> fetch_result"
  f_cwd :: string
  f_exists :: "string \<Rightarrow> bool"
  f_mkdir_error :: "string option"
  f_write_error :: "string option"
  f_files :: "string \<rightharpoonup> string"
  f_now :: string
  f_stringify :: "fetch_output \<Rightarrow> string"

record fetcher_outcome =
  f_exit :: nat
  f_events :: "fetcher_event list"
  f_files_after :: "string \<rightharpoonup> string"
  f_returned :: "fetch_output option"

definition headers :: "fetcher_world \<Rightarrow> (string \<times> string) list" where
  "headers w =
     [(''Authorization'', ''Bearer '' @ env_text (f_env w ''NOTION_API_TOKEN'')),
      (''Notion-Version'', ''2022-06-28''),
      (''Content-Type'', ''application/json'')]"

definition meta_request :: "fetcher_world \<Rightarrow> request" where
  "meta_request w =
     \<lparr>req_method = ''GET'',
      req_url = ''https://api.notion.com/v1/databases/'' @ env_text (f_env w ''NOTION_DATABASE_ID''),
      req_headers = headers w,
      req_body = None\<rparr>"

definition query_request :: "fetcher_world \<Rightarrow> request" where
  \<open>query_request w =
     \<lparr>req_method = ''POST'',
      req_url = ''https://api.notion.com/v1/databases/''
                  @ env_text (f_env w ''NOTION_DATABASE_ID'') @ ''/query'',
      req_headers = headers w,
      req_body = Some ''{"page_size":100}''\<rparr>\<close>

text \<open>The \<^verbatim>\<open>catch\<close> block, and the two \<^verbatim>\<open>if (!res.ok)\<close> blocks.\<close>

definition fetch_fail :: "fetcher_world \<Rightarrow> fetcher_event list \<Rightarrow> string \<Rightarrow> fetcher_outcome" where
  "fetch_fail w evs msg =
     \<lparr>f_exit = 1,
      f_events = evs @ [FError (''Error fetching Notion data: '' @ msg)],
      f_files_after = f_files w,
      f_returned = None\<rparr>"

definition upstream_fail ::
  "fetcher_world \<Rightarrow> fetcher_event list \<Rightarrow> string \<Rightarrow> response \<Rightarrow> fetcher_outcome" where
  "upstream_fail w evs what res =
     \<lparr>f_exit = 1,
      f_events = evs @ [FError (what @ string_of_nat (resp_status res)),
                        FError (''Response: '' @ resp_text res)],
      f_files_after = f_files w,
      f_returned = None\<rparr>"

definition persist ::
  "fetcher_world \<Rightarrow> fetcher_event list \<Rightarrow> json \<Rightarrow> item list \<Rightarrow> fetcher_outcome" where
  "persist w evs dbTitle items =
     (let dataDir = path_join (f_cwd w) ''data'';
          evs1 = evs @ [FExists dataDir];
          evs2 = (if f_exists w dataDir then evs1 else evs1 @ [FMkdir dataDir])
      in case (if f_exists w dataDir then None else f_mkdir_error w) of
           Some msg \<Rightarrow> fetch_fail w evs2 msg
         | None \<Rightarrow>
             (let out = \<lparr>out_database_title = dbTitle,
                         out_database_id = env_text (f_env w ''NOTION_DATABASE_ID''),
                         out_items = items,
                         out_fetchedAt = f_now w,
                         out_itemCount = length items\<rparr>;
                  outputPath = path_join dataDir ''notion-raw.json'';
                  evs3 = evs2 @ [FWriteFile outputPath (f_stringify w out)]
              in case f_write_error w of
                   Some msg \<Rightarrow> fetch_fail w evs3 msg
                 | None \<Rightarrow>
                     \<lparr>f_exit = 0,
                      f_events = evs3
                        @ [FLog (''\<newline>Successfully wrote '' @ string_of_nat (length items)
                                  @ '' items to '' @ outputPath)],
                      f_files_after = (f_files w)(outputPath \<mapsto> f_stringify w out),
                      f_returned = Some out\<rparr>))"

definition query_stage :: "fetcher_world \<Rightarrow> fetcher_event list \<Rightarrow> json \<Rightarrow> fetcher_outcome" where
  "query_stage w evs dbTitle =
     (let evs1 = evs @ [FLog ''Querying database...'', FRequest (query_request w)]
      in case f_fetch w (query_request w) of
           Rejected msg \<Rightarrow> fetch_fail w evs1 msg
         | Resolved dbRes \<Rightarrow>
             if \<not> resp_ok dbRes then upstream_fail w evs1 ''Database query failed: '' dbRes
             else
               (case bind_res (resp_json dbRes) (\<lambda>dbData.
                     bind_res (get_prop dbData ''results'') (\<lambda>results.
                     bind_res (length_text results) (\<lambda>n. Inr (results, n)))) of
                  Inl msg \<Rightarrow> fetch_fail w evs1 msg
                | Inr (results, n) \<Rightarrow>
                    (let evs2 = evs1 @ [FLog (''Found '' @ n @ '' items in database'')]
                     in case results of
                          JArr raw \<Rightarrow>
                            (case map_items raw of
                               Inl msg \<Rightarrow> fetch_fail w evs2 msg
                             | Inr items \<Rightarrow> persist w evs2 dbTitle items)
                        | _ \<Rightarrow> fetch_fail w evs2 ''dbData.results.map is not a function'')))"

definition fetchNotionData :: "fetcher_world \<Rightarrow> fetcher_outcome" where
  "fetchNotionData w =
     (let evs1 = [FLog ''Fetching Notion database metadata...'', FRequest (meta_request w)]
      in case f_fetch w (meta_request w) of
           Rejected msg \<Rightarrow> fetch_fail w evs1 msg
         | Resolved dbMetaRes \<Rightarrow>
             if \<not> resp_ok dbMetaRes then upstream_fail w evs1 ''Database fetch failed: '' dbMetaRes
             else
               (case bind_res (resp_json dbMetaRes) (\<lambda>dbMeta.
                     bind_res (get_prop dbMeta ''title'') (\<lambda>title.
                       let dbTitle = or_else (opt_prop (opt_index0 title) ''plain_text'')
                                             (JStr ''Unknown Database'')
                       in bind_res (to_string dbTitle) (\<lambda>t. Inr (dbTitle, t)))) of
                  Inl msg \<Rightarrow> fetch_fail w evs1 msg
                | Inr (dbTitle, t) \<Rightarrow> query_stage w (evs1 @ [FLog (''Database title: '' @ t)]) dbTitle))"

text \<open>The script: the two checks at its top, then the call.\<close>

definition fetch_notion_script :: "fetcher_world \<Rightarrow> fetcher_outcome" where
  "fetch_notion_script w =
     (if env_missing (f_env w ''NOTION_API_TOKEN'')
      then \<lparr>f_exit = 1,
            f_events = [FError ''Error: Missing required environment variable: NOTION_API_TOKEN''],
            f_files_after = f_files w, f_returned = None\<rparr>
      else if env_missing (f_env w ''NOTION_DATABASE_ID'')
      then \<lparr>f_exit = 1,
            f_events = [FError ''Error: Missing required environment variable: NOTION_DATABASE_ID''],
            f_files_after = f_files w, f_returned = None\<rparr>
      else fetchNotionData w)"

text \<open>
  Modelled from the spec: the workspace database behind the endpoint, which the sources do not
  contain.  It answers a query ``paginated, page size bounded, e.g. 100/page'': a query without
  a cursor gets the first 100 items of the collection, and is told whether more remain.
\<close>

definition first_page :: "json list \<Rightarrow> json" where
  "first_page coll =
     JObj [(''object'', JStr ''list''),
           (''results'', JArr (take 100 coll)),
           (''next_cursor'', if 100 < length coll then JStr ''cursor-100'' else JNull),
           (''has_more'', JBool (100 < length coll))]"

definition workspace_database :: "string \<Rightarrow> json list \<Rightarrow> request \<Rightarrow> fetch_result" where
  "workspace_database title coll req =
     (if req_method req = ''POST''
      then Resolved \<lparr>resp_status = 200, resp_text = [], resp_json = Inr (first_page coll)\<rparr>
      else Resolved \<lparr>resp_status = 200, resp_text = [],
                     resp_json = Inr (JObj [(''object'', JStr ''database''),
                                            (''title'', JArr [JObj [(''plain_text'', JStr title)]])])\<rparr>)"

section \<open>Example runs\<close>

definition example_mailer_world :: "string \<Rightarrow> string \<Rightarrow> string \<Rightarrow> mailer_world" where
  "example_mailer_world flag recipients report =
     \<lparr>m_env = [''GMAIL_FROM_EMAIL'' \<mapsto> ''me@x.io'', ''GMAIL_APP_PASSWORD'' \<mapsto> ''pw'',
               ''EMAIL_RECIPIENTS'' \<mapsto> recipients, ''IS_TEST_EMAIL'' \<mapsto> flag,
               ''APPROVAL_TOKEN_SECRET'' \<mapsto> ''s3cr3t'',
               ''VERCEL_DEPLOYMENT_URL'' \<mapsto> ''https://x.app'', ''GITHUB_RUN_ID'' \<mapsto> ''42''],
      m_cwd = ''/w'',
      m_files = [''/w/NOTION_PROJECT_STATUS.html'' \<mapsto> report],
      m_date = ''Dec 16, 2024'',
      m_smtp = (\<lambda>m. Inr ''250 2.0.0 OK'')\<rparr>"

section \<open>Vocabulary for the properties\<close>

text \<open>The banner of a test email, as \<open>injectApprovalButton\<close> builds it from the environment.\<close>

definition approval_banner :: "env \<Rightarrow> string" where
  "approval_banner e =
     approvalButtonHtml
       (buildApprovalUrl (env_text (e ''GITHUB_RUN_ID''))
          (fst (generateApprovalToken (env_text (e ''GITHUB_RUN_ID''))
                  (env_text (e ''APPROVAL_TOKEN_SECRET'')) []))
          (env_text (e ''VERCEL_DEPLOYMENT_URL'')))"

text \<open>
  Well-formed UTF-8 (the Unicode Standard, table 3-7): a sequence of encoded scalar values, one
  to four bytes each, excluding over-long forms, surrogates and values above U+10FFFF.
\<close>

definition utf8_cont :: "char \<Rightarrow> bool" where
  "utf8_cont c = (128 \<le> byte_val c \<and> byte_val c \<le> 191)"

inductive utf8_well_formed :: "string \<Rightarrow> bool" where
  wf_empty: "utf8_well_formed []"
| wf_1: "byte_val a < 128 \<Longrightarrow> utf8_well_formed s \<Longrightarrow> utf8_well_formed (a # s)"
| wf_2: "194 \<le> byte_val a \<Longrightarrow> byte_val a \<le> 223 \<Longrightarrow> utf8_cont b \<Longrightarrow> utf8_well_formed s
     \<Longrightarrow> utf8_well_formed (a # b # s)"
| wf_3_E0: "byte_val a = 224 \<Longrightarrow> 160 \<le> byte_val b \<Longrightarrow> byte_val b \<le> 191 \<Longrightarrow> utf8_cont c
     \<Longrightarrow> utf8_well_formed s \<Longrightarrow> utf8_well_formed (a # b # c # s)"
| wf_3: "225 \<le> byte_val a \<and> byte_val a \<le> 236 \<or> 238 \<le> byte_val a \<and> byte_val a \<le> 239
     \<Longrightarrow> utf8_cont b \<Longrightarrow> utf8_cont c \<Longrightarrow> utf8_well_formed s
     \<Longrightarrow> utf8_well_formed (a # b # c # s)"
| wf_3_ED: "byte_val a = 237 \<Longrightarrow> 128 \<le> byte_val b \<Longrightarrow> byte_val b \<le> 159 \<Longrightarrow> utf8_cont c
     \<Longrightarrow> utf8_well_formed s \<Longrightarrow> utf8_well_formed (a # b # c # s)"
| wf_4_F0: "byte_val a = 240 \<Longrightarrow> 144 \<le> byte_val b \<Longrightarrow> byte_val b \<le> 191 \<Longrightarrow> utf8_cont c
     \<Longrightarrow> utf8_cont d \<Longrightarrow> utf8_well_formed s \<Longrightarrow> utf8_well_formed (a # b # c # d # s)"
| wf_4: "241 \<le> byte_val a \<Longrightarrow> byte_val a \<le> 243 \<Longrightarrow> utf8_cont b \<Longrightarrow> utf8_cont c
     \<Longrightarrow> utf8_cont d \<Longrightarrow> utf8_well_formed s \<Longrightarrow> utf8_well_formed (a # b # c # d # s)"
| wf_4_F4: "byte_val a = 244 \<Longrightarrow> 128 \<le> byte_val b \<Longrightarrow> byte_val b \<le> 143 \<Longrightarrow> utf8_cont c
     \<Longrightarrow> utf8_cont d \<Longrightarrow> utf8_well_formed s \<Longrightarrow> utf8_well_formed (a # b # c # d # s)"

code_pred utf8_well_formed .

text \<open>The requests a run issued, and whether it attempted to create a directory or write a file.\<close>

definition requests_made :: "fetcher_event list \<Rightarrow> request list" where
  "requests_made evs = concat (map (\<lambda>ev. case ev of FRequest r \<Rightarrow> [r] | _ \<Rightarrow> []) evs)"

definition fs_touched :: "fetcher_event list \<Rightarrow> bool" where
  "fs_touched evs =
     list_ex (\<lambda>ev. case ev of FMkdir p \<Rightarrow> True | FWriteFile p c \<Rightarrow> True | _ \<Rightarrow> False) evs"

text \<open>The raw fields of an item that \<open>normalize_item\<close> reads with optional chaining.\<close>

definition raw_name :: "json \<Rightarrow> json" where
  "raw_name it =
     opt_prop (opt_index0 (opt_prop (opt_prop (opt_prop it ''properties'') ''Name'') ''title''))
       ''plain_text''"

definition raw_status :: "json \<Rightarrow> json" where
  "raw_status it =
     opt_prop (opt_prop (opt_prop (opt_prop it ''properties'') ''Status'') ''status'') ''name''"

definition raw_priority :: "json \<Rightarrow> json" where
  "raw_priority it =
     opt_prop (opt_prop (opt_prop (opt_prop it ''properties'') ''Priority'') ''select'') ''name''"

definition raw_client :: "json \<Rightarrow> json" where
  "raw_client it =
     opt_prop (opt_prop (opt_prop (opt_prop it ''properties'') ''Client'') ''select'') ''name''"

text \<open>
  An item the normalisation accepts: an object whose \<^verbatim>\<open>properties\<close> is neither undefined
  nor null, and whose \<^verbatim>\<open>Updates.rich_text\<close>, when there is one, is a list of texts: each
  neither undefined nor null, with a \<^verbatim>\<open>plain_text\<close> that is absent or a primitive value.
\<close>

definition text_ok :: "json \<Rightarrow> bool" where
  "text_ok t =
     (\<not> nullish t \<and> (case opt_prop t ''plain_text'' of JArr xs \<Rightarrow> False | JObj kvs \<Rightarrow> False | _ \<Rightarrow> True))"

definition well_formed_item :: "json \<Rightarrow> bool" where
  "well_formed_item it =
     (case it of
        JObj kvs \<Rightarrow>
          \<not> nullish (own_prop kvs ''properties'')
          \<and> (let rich_text = opt_prop (opt_prop (own_prop kvs ''properties'') ''Updates'') ''rich_text''
             in nullish rich_text \<or> (case rich_text of JArr ts \<Rightarrow> list_all text_ok ts | _ \<Rightarrow> False))
      | _ \<Rightarrow> False)"

definition example_item :: "string \<Rightarrow> string \<Rightarrow> json" where
  "example_item i p =
     JObj [(''id'', JStr i), (''url'', JStr (''https://www.notion.so/'' @ i)),
           (''properties'',
            JObj [(''Name'', JObj [(''title'', JArr [JObj [(''plain_text'', JStr ''Fix login'')]])]),
                  (''Status'', JObj [(''status'', JObj [(''name'', JStr ''Open'')])]),
                  (''Priority'', JObj [(''select'', JObj [(''name'', JStr p)])]),
                  (''Updates'', JObj [(''rich_text'', JArr [JObj [(''plain_text'', JStr ''wip'')]])]),
                  (''Client'', JObj [(''select'', JObj [(''name'', JStr ''Acme'')])])])]"

definition example_fetch_world :: "json list \<Rightarrow> fetcher_world" where
  "example_fetch_world coll =
     \<lparr>f_env = [''NOTION_API_TOKEN'' \<mapsto> ''secret_tok'', ''NOTION_DATABASE_ID'' \<mapsto> ''db1''],
      f_fetch = workspace_database ''Status'' coll,
      f_cwd = ''/w'',
      f_exists = (\<lambda>p. False),
      f_mkdir_error = None,
      f_write_error = None,
      f_files = Map.empty,
      f_now = ''2024-12-16T09:00:00.000Z'',
      f_stringify = (\<lambda>out. ''{}'')\<rparr>"

definition big_collection :: "json list" where
  "big_collection = map (\<lambda>i. example_item (string_of_nat i) ''High'') [0..<101]"

section \<open>Properties of the token service\<close>

lemma length_sha256: "length (sha256 m) = 32"
  by (simp add: sha256_def Let_def bytes_of_word32_def)

lemma length_hmac_sha256: "length (hmac_sha256 key msg) = 32"
  by (simp add: hmac_sha256_def Let_def length_sha256)

lemma length_hex: "length (hex bs) = 2 * length bs"
  by (induction bs) (simp_all add: hex_def hex_of_byte_def)

lemma hexdigit_in_hexchars: "n < 16 \<Longrightarrow> hexdigit n \<in> set hexchars"
  unfolding hexdigit_def by (rule nth_mem) (simp add: hexchars_def)

lemma hex_of_byte_chars: "set (hex_of_byte b) \<subseteq> set hexchars"
proof -
  have "unat b < 2 ^ LENGTH(8)"
    by (rule unsigned_less)
  then have "unat b < 256"
    by simp
  then have "unat b div 16 < 16" and "unat b mod 16 < 16"
    by simp_all
  then show ?thesis
    by (simp add: hex_of_byte_def hexdigit_in_hexchars)
qed

lemma hex_chars: "set (hex bs) \<subseteq> set hexchars"
  using hex_of_byte_chars by (auto simp: hex_def)

lemma generateApprovalToken_value:
  "fst (generateApprovalToken runId secret hp)
     = hex (hmac_sha256 (utf8_bytes secret) (utf8_bytes runId))"
  by (simp add: generateApprovalToken_def createHmac_def hmac_update_def hmac_digest_hex_def)

text \<open>
  C1 (token determinism).  The signature returned by \<open>generateApprovalToken\<close> depends on
  \<open>runId\<close> and \<open>secret\<close> only: every call allocates a fresh \<^verbatim>\<open>Hmac\<close> object, so
  two calls with the same arguments return the same token whatever objects the process holds
  (\<open>hp\<close>, \<open>hp'\<close>), and in particular when the second call runs on the heap the first one left.
\<close>

theorem token_determinism:
  "fst (generateApprovalToken runId secret hp) = fst (generateApprovalToken runId secret hp')
   \<and> fst (generateApprovalToken runId secret (snd (generateApprovalToken runId secret hp)))
       = fst (generateApprovalToken runId secret hp)"
  by (simp add: generateApprovalToken_value)

text \<open>
  C2 (token wire format).  The token is the lower-case hexadecimal rendering of the HMAC-SHA256
  of \<open>runId\<close> under \<open>secret\<close>; it has exactly 64 characters, all of them among
  \<open>0123456789abcdef\<close>; and the approval URL built from it carries exactly this string between
  \<open>token=\<close> and \<open>&run_id=\<close>.
\<close>

theorem token_wire_format:
  "fst (generateApprovalToken runId secret hp)
     = hex (hmac_sha256 (utf8_bytes secret) (utf8_bytes runId))
   \<and> length (fst (generateApprovalToken runId secret hp)) = 64
   \<and> list_all (\<lambda>c. c \<in> set ''0123456789abcdef'') (fst (generateApprovalToken runId secret hp))
   \<and> buildApprovalUrl runId (fst (generateApprovalToken runId secret hp)) deploymentUrl
       = deploymentUrl @ ''/api/approve?token=''
           @ hex (hmac_sha256 (utf8_bytes secret) (utf8_bytes runId)) @ ''&run_id='' @ runId"
proof -
  let ?t = "hex (hmac_sha256 (utf8_bytes secret) (utf8_bytes runId))"
  have len: "length ?t = 64"
    by (simp add: length_hex length_hmac_sha256)
  have "\<forall>c \<in> set ?t. c \<in> set ''0123456789abcdef''"
    using hex_chars [of "hmac_sha256 (utf8_bytes secret) (utf8_bytes runId)"]
    unfolding hexchars_def by blast
  then have chars: "list_all (\<lambda>c. c \<in> set ''0123456789abcdef'') ?t"
    unfolding list_all_iff .
  show ?thesis
    using len chars
    by (simp only: generateApprovalToken_value buildApprovalUrl_def simp_thms)
qed

text \<open>
  C10 (approval URL by plain concatenation).  \<open>buildApprovalUrl\<close> returns the deployment URL,
  the fixed path and the two parameters concatenated character for character: the result is
  as long as its parts together, and it ends with \<open>runId\<close> itself, whatever characters
  \<open>runId\<close> contains (nothing is percent-encoded).
\<close>

theorem buildApprovalUrl_concat:
  "buildApprovalUrl runId token deploymentUrl
     = deploymentUrl @ ''/api/approve?token='' @ token @ ''&run_id='' @ runId
   \<and> length (buildApprovalUrl runId token deploymentUrl)
       = length deploymentUrl + 19 + length token + 8 + length runId
   \<and> drop (length deploymentUrl + 19 + length token + 8)
        (buildApprovalUrl runId token deploymentUrl) = runId
   \<and> buildApprovalUrl ''7&x=y'' token deploymentUrl
       = deploymentUrl @ ''/api/approve?token='' @ token @ ''&run_id=7&x=y''"
proof -
  let ?pre = "deploymentUrl @ ''/api/approve?token='' @ token @ ''&run_id=''"
  have url: "buildApprovalUrl runId token deploymentUrl = ?pre @ runId"
    by (simp add: buildApprovalUrl_def)
  have len: "length ?pre = length deploymentUrl + 19 + length token + 8"
    by simp
  have "drop (length ?pre) (?pre @ runId) = runId"
    by (rule append_eq_conv_conj [THEN iffD1, THEN conjunct2, OF refl, symmetric])
  then have suffix: "drop (length deploymentUrl + 19 + length token + 8)
      (buildApprovalUrl runId token deploymentUrl) = runId"
    by (simp only: url len)
  show ?thesis
    using suffix by (simp add: buildApprovalUrl_def)
qed

section \<open>The constants of SHA-256\<close>









section \<open>Known answers\<close>











section \<open>Signature integrity\<close>












section \<open>Properties of the mailer\<close>

lemma get_substitution_plain_cons:
  "c \<noteq> CHR ''$'' \<Longrightarrow> get_substitution m pre post (c # t) = c # get_substitution m pre post t"
  by (cases t) simp_all

lemma get_substitution_plain_append:
  "CHR ''$'' \<notin> set t1 \<Longrightarrow>
     get_substitution m pre post (t1 @ t2) = t1 @ get_substitution m pre post t2"
proof (induction t1)
  case Nil
  then show ?case by simp
next
  case (Cons c t1)
  then have "c \<noteq> CHR ''$''" and "CHR ''$'' \<notin> set t1"
    by auto
  with Cons.IH show ?case
    by (simp add: get_substitution_plain_cons)
qed

lemma get_substitution_plain:
  "CHR ''$'' \<notin> set t \<Longrightarrow> get_substitution m pre post t = t"
  using get_substitution_plain_append [of t m pre post "[]"] by simp

lemma approvalButtonHtml_plain:
  "CHR ''$'' \<notin> set approvalUrl \<Longrightarrow> CHR ''$'' \<notin> set (approvalButtonHtml approvalUrl)"
  by (simp add: approvalButtonHtml_def)

lemma hex_plain: "CHR ''$'' \<notin> set (hex bs)"
  using hex_chars [of bs] by (auto simp: hexchars_def)

lemma buildApprovalUrl_plain:
  "CHR ''$'' \<notin> set runId \<Longrightarrow> CHR ''$'' \<notin> set deploymentUrl \<Longrightarrow>
     CHR ''$'' \<notin> set (buildApprovalUrl runId (hex bs) deploymentUrl)"
  by (simp add: buildApprovalUrl_def hex_plain)

lemma match_body_tag_decomp:
  assumes "match_body_tag s = Some (m, post)"
  shows "s = m @ post"
proof -
  let ?r = "drop 5 s"
  let ?P = "\<lambda>c. c \<noteq> CHR ''>''"
  from assms have gt: "CHR ''>'' \<in> set ?r"
    and m: "m = take 5 s @ takeWhile ?P ?r @ ''>''"
    and post: "post = tl (dropWhile ?P ?r)"
    by (auto simp: match_body_tag_def Let_def split: if_splits)
  from gt have ne: "dropWhile ?P ?r \<noteq> []"
    by (simp add: dropWhile_eq_Nil_conv) 
  then have "\<not> ?P (hd (dropWhile ?P ?r))"
    by (rule hd_dropWhile)
  with ne have "dropWhile ?P ?r = CHR ''>'' # tl (dropWhile ?P ?r)"
    by (cases "dropWhile ?P ?r") simp_all
  then have "?r = takeWhile ?P ?r @ ''>'' @ tl (dropWhile ?P ?r)"
    by (metis append_Cons append_Nil takeWhile_dropWhile_id)
  then have "s = take 5 s @ takeWhile ?P ?r @ ''>'' @ tl (dropWhile ?P ?r)"
    by (metis append_take_drop_id)
  then show ?thesis
    by (simp add: m post)
qed

lemma search_body_tag_decomp:
  "search_body_tag s = Some (pre, m, post) \<Longrightarrow> s = pre @ m @ post"
proof (induction s arbitrary: pre)
  case Nil
  then show ?case by simp
next
  case (Cons c cs)
  show ?case
  proof (cases "match_body_tag (c # cs)")
    case (Some mp)
    with Cons.prems show ?thesis
      by (cases mp) (auto dest: match_body_tag_decomp)
  next
    case None
    with Cons.prems obtain pre' where "search_body_tag cs = Some (pre', m, post)" "pre = c # pre'"
      by (auto split: option.splits)
    with Cons.IH show ?thesis
      by simp
  qed
qed

lemma injectApprovalButton_prepend:
  "\<not> str_includes htmlContent ''<body'' \<Longrightarrow>
     fst (injectApprovalButton runId secret deploymentUrl htmlContent hp)
       = approvalButtonHtml
           (buildApprovalUrl runId (fst (generateApprovalToken runId secret hp)) deploymentUrl)
         @ htmlContent"
  by (simp add: injectApprovalButton_def split_def Let_def)

lemma injectApprovalButton_after_tag:
  assumes "str_includes htmlContent ''<body''"
    and "search_body_tag htmlContent = Some (pre, tag, post)"
    and "CHR ''$'' \<notin> set runId" and "CHR ''$'' \<notin> set deploymentUrl"
  shows "fst (injectApprovalButton runId secret deploymentUrl htmlContent hp)
       = pre @ tag
         @ approvalButtonHtml
             (buildApprovalUrl runId (fst (generateApprovalToken runId secret hp)) deploymentUrl)
         @ post"
proof -
  let ?url = "buildApprovalUrl runId (fst (generateApprovalToken runId secret hp)) deploymentUrl"
  have "CHR ''$'' \<notin> set ?url"
    using assms(3,4) by (simp add: generateApprovalToken_value buildApprovalUrl_plain)
  then have "CHR ''$'' \<notin> set (approvalButtonHtml ?url)"
    by (rule approvalButtonHtml_plain)
  then have "get_substitution tag pre post (''$1'' @ approvalButtonHtml ?url)
               = tag @ approvalButtonHtml ?url"
    by (simp add: get_substitution_plain)
  then show ?thesis
    using assms(1,2) by (simp add: injectApprovalButton_def split_def Let_def replace_body_tag_def)
qed

lemma injectApprovalButton_no_match:
  "str_includes htmlContent ''<body'' \<Longrightarrow> search_body_tag htmlContent = None \<Longrightarrow>
     fst (injectApprovalButton runId secret deploymentUrl htmlContent hp) = htmlContent"
  by (simp add: injectApprovalButton_def split_def Let_def replace_body_tag_def)

text \<open>
  C9 (banner injection) does not hold of the code.  The guard \<^verbatim>\<open>includes('<body')\<close> is
  exact and asks for no closing \<^verbatim>\<open>>\<close>, while the expression that does the insertion ignores
  case and needs one.  For the report \<^verbatim>\<open><body\<close> the guard holds and the expression does not
  match: the report is returned unchanged, with no banner at all.  For a report whose body tag is
  written \<^verbatim>\<open><BODY>\<close> the guard fails: the banner is put in front of the whole document
  instead of after the tag.
\<close>

theorem injectApprovalButton_missed_cases:
  "fst (injectApprovalButton runId secret deploymentUrl ''<body'' hp) = ''<body''
   \<and> fst (injectApprovalButton runId secret deploymentUrl ''<BODY><p>r</p></BODY>'' hp)
       = approvalButtonHtml
           (buildApprovalUrl runId (fst (generateApprovalToken runId secret hp)) deploymentUrl)
         @ ''<BODY><p>r</p></BODY>''"
proof -
  have "str_includes ''<body'' ''<body''"
    by (simp add: starts_with_def)
  moreover have "search_body_tag ''<body'' = None"
    by (simp add: match_body_tag_def starts_with_ci_def to_upper_ascii_def)
  ultimately have 1: "fst (injectApprovalButton runId secret deploymentUrl ''<body'' hp) = ''<body''"
    by (rule injectApprovalButton_no_match)
  have "\<not> str_includes ''<BODY><p>r</p></BODY>'' ''<body''"
    by (simp add: starts_with_def)
  then have 2: "fst (injectApprovalButton runId secret deploymentUrl ''<BODY><p>r</p></BODY>'' hp)
       = approvalButtonHtml
           (buildApprovalUrl runId (fst (generateApprovalToken runId secret hp)) deploymentUrl)
         @ ''<BODY><p>r</p></BODY>''"
    by (rule injectApprovalButton_prepend)
  from 1 2 show ?thesis
    by (rule conjI)
qed

text \<open>
  The banner is also passed to \<^verbatim>\<open>replace\<close> as a replacement template, so a \<^verbatim>\<open>$&\<close> in
  the run identifier is replaced by the matched tag.
\<close>

lemma injectApprovalButton_dollar_pattern:
  "fst (injectApprovalButton ''$&'' secret ''u'' ''<body>'' hp)
     = ''<body>'' @ approvalButtonHtml
         (''u/api/approve?token='' @ fst (generateApprovalToken ''$&'' secret hp) @ ''&run_id=<body>'')"
proof -
  have inc: "str_includes ''<body>'' ''<body''"
    by (simp add: starts_with_def)
  have srch: "search_body_tag ''<body>'' = Some ([], ''<body>'', [])"
    by (simp add: match_body_tag_def starts_with_ci_def to_upper_ascii_def)
  show ?thesis
    using inc srch
    by (simp add: injectApprovalButton_def split_def Let_def replace_body_tag_def
        generateApprovalToken_value buildApprovalUrl_def approvalButtonHtml_def
        get_substitution_plain_cons get_substitution_plain_append hex_plain)
qed

lemma missingVars_Nil:
  assumes "missingVars e = []"
  shows "\<not> env_missing (e ''GMAIL_FROM_EMAIL'')" "\<not> env_missing (e ''GMAIL_APP_PASSWORD'')"
    "\<not> env_missing (e ''EMAIL_RECIPIENTS'')"
    "IS_TEST_EMAIL e \<Longrightarrow> \<not> env_missing (e ''APPROVAL_TOKEN_SECRET'')"
    "IS_TEST_EMAIL e \<Longrightarrow> \<not> env_missing (e ''VERCEL_DEPLOYMENT_URL'')"
    "IS_TEST_EMAIL e \<Longrightarrow> \<not> env_missing (e ''GITHUB_RUN_ID'')"
  using assms by (auto simp: missingVars_def split: if_splits)

lemma env_present: "\<not> env_missing v \<Longrightarrow> \<exists>s. v = Some s"
  by (cases v) (simp_all add: env_missing_def)

lemma sent_mails_simps:
  "sent_mails [] = []"
  "sent_mails (MSendMail m # evs) = m # sent_mails evs"
  "sent_mails (MLog s # evs) = sent_mails evs"
  "sent_mails (MError s # evs) = sent_mails evs"
  "sent_mails (MExists s # evs) = sent_mails evs"
  "sent_mails (MReadFile s # evs) = sent_mails evs"
  "sent_mails (evs @ evs') = sent_mails evs @ sent_mails evs'"
  by (simp_all add: sent_mails_def)

lemma utf8_trail_0 [simp]: "utf8_trail 0 lo hi s = []"
  by (cases s) simp_all

lemma utf8_lead_simps:
  "194 \<le> b \<Longrightarrow> b \<le> 223 \<Longrightarrow> utf8_lead b = Some (1, 128, 191)"
  "utf8_lead 224 = Some (2, 160, 191)"
  "utf8_lead 237 = Some (2, 128, 159)"
  "225 \<le> b \<and> b \<le> 236 \<or> 238 \<le> b \<and> b \<le> 239 \<Longrightarrow> utf8_lead b = Some (2, 128, 191)"
  "utf8_lead 240 = Some (3, 144, 191)"
  "utf8_lead 244 = Some (3, 128, 143)"
  "241 \<le> b \<Longrightarrow> b \<le> 243 \<Longrightarrow> utf8_lead b = Some (3, 128, 191)"
  by (auto simp add: utf8_lead_def)

text \<open>Reading a well-formed file gives its contents.\<close>

lemma utf8_decode_well_formed: "utf8_well_formed s \<Longrightarrow> utf8_decode s = s"
proof (induction rule: utf8_well_formed.induct)
  case wf_empty
  show ?case
    by simp
next
  case (wf_1 a s)
  then show ?case
    by simp
next
  case (wf_2 a b s)
  then show ?case
    by (simp add: utf8_lead_simps(1) utf8_cont_def)
next
  case (wf_3_E0 a b c s)
  then show ?case
    by (simp add: utf8_lead_simps(2) utf8_cont_def)
next
  case (wf_3 a b c s)
  from wf_3.hyps(1) have "\<not> byte_val a < 128"
    by linarith
  with wf_3 show ?case
    by (simp add: utf8_lead_simps(4) utf8_cont_def)
next
  case (wf_3_ED a b c s)
  then show ?case
    by (simp add: utf8_lead_simps(3) utf8_cont_def)
next
  case (wf_4_F0 a b c d s)
  then show ?case
    by (simp add: utf8_lead_simps(5) utf8_cont_def)
next
  case (wf_4 a b c d s)
  then show ?case
    by (simp add: utf8_lead_simps(7) utf8_cont_def)
next
  case (wf_4_F4 a b c d s)
  then show ?case
    by (simp add: utf8_lead_simps(6) utf8_cont_def)
qed

text \<open>
  Ill-formed bytes are replaced: a stray \<^verbatim>\<open>FF\<close>; a sequence cut short by the end of the
  file; a surrogate (\<^verbatim>\<open>ED A0 80\<close>), whose three bytes are each in error.
\<close>

lemma utf8_decode_ill_formed:
  "utf8_decode [CHR 0x61, CHR 0xFF, CHR 0x62] = [CHR 0x61, CHR 0xEF, CHR 0xBF, CHR 0xBD, CHR 0x62]"
  "utf8_decode [CHR 0xE2, CHR 0x9C, CHR 0x85, CHR 0xE2, CHR 0x9C]
     = [CHR 0xE2, CHR 0x9C, CHR 0x85, CHR 0xEF, CHR 0xBF, CHR 0xBD]"
  "utf8_decode [CHR 0xED, CHR 0xA0, CHR 0x80] = replacement_char @ replacement_char @ replacement_char"
  by (simp_all add: byte_val_def utf8_lead_def replacement_char_def)

lemma utf8_decode_examples:
  "utf8_decode ''<html><body><p>r</p></body></html>'' = ''<html><body><p>r</p></body></html>''"
  "utf8_decode ''<p>r</p>'' = ''<p>r</p>''"
  by (simp_all add: byte_val_def)

lemma sendEmail_broadcast:
  assumes "\<not> IS_TEST_EMAIL (m_env w)"
    and "m_files w (path_join (m_cwd w) ''NOTION_PROJECT_STATUS.html'') = Some stored"
    and "m_env w ''EMAIL_RECIPIENTS'' = Some rs"
    and "parse_recipients rs \<noteq> []"
  shows "\<exists>m. sent_mails (m_events (sendEmail w)) = [m]
           \<and> mail_to m = join '', '' (parse_recipients rs) \<and> mail_html m = utf8_decode stored"
  using assms
  by (cases "m_smtp w \<lparr>mail_from = (case m_env w ''GMAIL_FROM_EMAIL'' of None \<Rightarrow> [] | Some a \<Rightarrow> a),
        mail_to = join '', '' (parse_recipients rs),
        mail_subject = ''Product Status Update - '' @ m_date w,
        mail_html = utf8_decode stored\<rparr>")
     (simp_all add: sendEmail_def Let_def mailer_fail_def sent_mails_simps)

lemma sendEmail_preview:
  assumes "IS_TEST_EMAIL (m_env w)"
    and "m_files w (path_join (m_cwd w) ''NOTION_PROJECT_STATUS.html'') = Some stored"
    and "m_env w ''EMAIL_RECIPIENTS'' = Some rs"
    and "parse_recipients rs \<noteq> []"
    and "m_env w ''GITHUB_RUN_ID'' = Some runId"
    and "m_env w ''APPROVAL_TOKEN_SECRET'' = Some secret"
    and "m_env w ''VERCEL_DEPLOYMENT_URL'' = Some url"
  shows "\<exists>m. sent_mails (m_events (sendEmail w)) = [m]
           \<and> mail_to m = join '', '' (parse_recipients rs)
           \<and> mail_html m = fst (injectApprovalButton runId secret url (utf8_decode stored) [])"
  using assms
  by (cases "m_smtp w \<lparr>mail_from = (case m_env w ''GMAIL_FROM_EMAIL'' of None \<Rightarrow> [] | Some a \<Rightarrow> a),
        mail_to = join '', '' (parse_recipients rs),
        mail_subject = ''[TEST] Product Status Update - '' @ m_date w,
        mail_html = fst (injectApprovalButton runId secret url (utf8_decode stored) [])\<rparr>")
     (simp_all add: sendEmail_def Let_def mailer_fail_def sent_mails_simps test_email_html_def
        env_text_def)

lemma example_mailer_world_simps:
  "IS_TEST_EMAIL (m_env (example_mailer_world flag rs report)) = (flag = ''true'')"
  "m_files (example_mailer_world flag rs report)
     (path_join (m_cwd (example_mailer_world flag rs report)) ''NOTION_PROJECT_STATUS.html'')
   = Some report"
  "m_env (example_mailer_world flag rs report) ''EMAIL_RECIPIENTS'' = Some rs"
  "m_env (example_mailer_world flag rs report) ''GITHUB_RUN_ID'' = Some ''42''"
  "m_env (example_mailer_world flag rs report) ''APPROVAL_TOKEN_SECRET'' = Some ''s3cr3t''"
  "m_env (example_mailer_world flag rs report) ''VERCEL_DEPLOYMENT_URL'' = Some ''https://x.app''"
  "m_env (example_mailer_world flag rs report) ''GMAIL_FROM_EMAIL'' = Some ''me@x.io''"
  "m_env (example_mailer_world flag rs report) ''GMAIL_APP_PASSWORD'' = Some ''pw''"
  by (simp_all add: example_mailer_world_def IS_TEST_EMAIL_def path_join_def)

lemma example_mailer_world_valid:
  "rs \<noteq> [] \<Longrightarrow> missingVars (m_env (example_mailer_world flag rs report)) = []"
  unfolding missingVars_def by (simp add: example_mailer_world_simps(3-8) env_missing_def)

lemma example_banner:
  "approval_banner (m_env (example_mailer_world flag rs report))
     = approvalButtonHtml
         (buildApprovalUrl ''42'' (fst (generateApprovalToken ''42'' ''s3cr3t'' [])) ''https://x.app'')"
  unfolding approval_banner_def by (simp only: example_mailer_world_simps env_text_def option.case)

lemma parse_two_recipients:
  "parse_recipients ''a@x.io,b@x.io'' = [''a@x.io'', ''b@x.io'']"
  by (simp add: parse_recipients_def trim_def js_whitespace_def starts_with_def)

lemma parse_one_recipient: "parse_recipients ''me@x.io'' = [''me@x.io'']"
  by (simp add: parse_recipients_def trim_def js_whitespace_def starts_with_def)

text \<open>
  C4, as stated, fails: a test (PREVIEW) run whose \<^verbatim>\<open>EMAIL_RECIPIENTS\<close> lists two addresses
  sends its one message to both.
\<close>

theorem preview_two_recipients:
  "IS_TEST_EMAIL (m_env (example_mailer_world ''true'' ''a@x.io,b@x.io''
                           ''<html><body><p>r</p></body></html>''))
   \<and> parse_recipients ''a@x.io,b@x.io'' = [''a@x.io'', ''b@x.io'']
   \<and> map mail_to (sent_mails (m_events (send_email_script
         (example_mailer_world ''true'' ''a@x.io,b@x.io'' ''<html><body><p>r</p></body></html>''))))
       = [''a@x.io, b@x.io'']"
proof -
  let ?w = "example_mailer_world ''true'' ''a@x.io,b@x.io'' ''<html><body><p>r</p></body></html>''"
  have t: "IS_TEST_EMAIL (m_env ?w)"
    by (simp only: example_mailer_world_simps)
  have v: "missingVars (m_env ?w) = []"
    by (rule example_mailer_world_valid) simp
  have ne: "parse_recipients ''a@x.io,b@x.io'' \<noteq> []"
    by (simp only: parse_two_recipients) simp
  from sendEmail_preview [OF t example_mailer_world_simps(2,3) ne example_mailer_world_simps(4,5,6)]
  obtain m where "sent_mails (m_events (sendEmail ?w)) = [m]"
    "mail_to m = join '', '' (parse_recipients ''a@x.io,b@x.io'')"
    by blast
  then have "map mail_to (sent_mails (m_events (sendEmail ?w))) = [''a@x.io, b@x.io'']"
    by (simp add: parse_two_recipients)
  moreover have "send_email_script ?w = sendEmail ?w"
    by (simp only: send_email_script_def v) simp
  ultimately show ?thesis
    using t parse_two_recipients by simp
qed

text \<open>
  C4 (mailer call shapes), amended.  When the configuration is complete, the report exists and
  \<^verbatim>\<open>EMAIL_RECIPIENTS\<close> yields at least one address, the run sends exactly one message, to
  every address parsed from \<^verbatim>\<open>EMAIL_RECIPIENTS\<close>, in both modes.  Without the test flag
  (BROADCAST) its HTML is the report file as read with the \<^verbatim>\<open>'utf-8'\<close> option, with no
  banner: the file's contents unchanged when they are well-formed UTF-8.  With the test flag
  (PREVIEW) its HTML is the banner with the signed approval URL followed by the report as read,
  when the report has no body tag (neither the text \<^verbatim>\<open><body\<close> nor a match of the
  expression); and the report with that banner right after its first body tag, when the report
  contains \<^verbatim>\<open><body\<close>, the expression finds a tag, and neither the run identifier nor the
  deployment URL contains a dollar sign.  Nothing is said of the reports on which the guard and
  the expression of \<open>injectApprovalButton\<close> disagree.
\<close>

theorem mailer_call_shapes:
  assumes "missingVars (m_env w) = []"
    and "m_files w (path_join (m_cwd w) ''NOTION_PROJECT_STATUS.html'') = Some stored"
    and "m_env w ''EMAIL_RECIPIENTS'' = Some rs"
    and "parse_recipients rs \<noteq> []"
  shows "\<exists>m. sent_mails (m_events (send_email_script w)) = [m]
           \<and> mail_to m = join '', '' (parse_recipients rs)
           \<and> (\<not> IS_TEST_EMAIL (m_env w) \<longrightarrow>
                mail_html m = utf8_decode stored
                \<and> (utf8_well_formed stored \<longrightarrow> mail_html m = stored))
           \<and> (IS_TEST_EMAIL (m_env w) \<longrightarrow>
                (\<not> str_includes (utf8_decode stored) ''<body''
                 \<and> search_body_tag (utf8_decode stored) = None \<longrightarrow>
                   mail_html m = approval_banner (m_env w) @ utf8_decode stored)
                \<and> (\<forall>pre tag post.
                      str_includes (utf8_decode stored) ''<body''
                      \<and> search_body_tag (utf8_decode stored) = Some (pre, tag, post)
                      \<and> CHR ''$'' \<notin> set (env_text (m_env w ''GITHUB_RUN_ID''))
                      \<and> CHR ''$'' \<notin> set (env_text (m_env w ''VERCEL_DEPLOYMENT_URL'')) \<longrightarrow>
                      utf8_decode stored = pre @ tag @ post
                      \<and> mail_html m = pre @ tag @ approval_banner (m_env w) @ post))"
proof (cases "IS_TEST_EMAIL (m_env w)")
  case False
  have "send_email_script w = sendEmail w"
    by (simp add: send_email_script_def assms(1))
  with False sendEmail_broadcast [OF False assms(2-4)] show ?thesis
    by (auto simp add: utf8_decode_well_formed)
next
  case True
  let ?content = "utf8_decode stored"
  from missingVars_Nil(4-6) [OF assms(1) True]
  obtain secret url runId where env:
    "m_env w ''APPROVAL_TOKEN_SECRET'' = Some secret"
    "m_env w ''VERCEL_DEPLOYMENT_URL'' = Some url"
    "m_env w ''GITHUB_RUN_ID'' = Some runId"
    by (blast dest: env_present)
  have etext: "env_text (m_env w ''APPROVAL_TOKEN_SECRET'') = secret"
    "env_text (m_env w ''VERCEL_DEPLOYMENT_URL'') = url"
    "env_text (m_env w ''GITHUB_RUN_ID'') = runId"
    by (simp_all add: env env_text_def)
  have banner: "approval_banner (m_env w)
      = approvalButtonHtml
          (buildApprovalUrl runId (fst (generateApprovalToken runId secret [])) url)"
    by (simp only: approval_banner_def etext)
  from sendEmail_preview [OF True assms(2-4) env(3,1,2)]
  obtain m where m: "sent_mails (m_events (sendEmail w)) = [m]"
    "mail_to m = join '', '' (parse_recipients rs)"
    "mail_html m = fst (injectApprovalButton runId secret url ?content [])"
    by blast
  have 1: "sent_mails (m_events (send_email_script w)) = [m]"
    using m(1) assms(1) by (simp add: send_email_script_def)
  have 2: "\<not> str_includes ?content ''<body'' \<and> search_body_tag ?content = None \<longrightarrow>
      mail_html m = approval_banner (m_env w) @ ?content"
    by (simp add: m(3) banner injectApprovalButton_prepend)
  have 3: "\<forall>pre tag post.
       str_includes ?content ''<body''
       \<and> search_body_tag ?content = Some (pre, tag, post)
       \<and> CHR ''$'' \<notin> set (env_text (m_env w ''GITHUB_RUN_ID''))
       \<and> CHR ''$'' \<notin> set (env_text (m_env w ''VERCEL_DEPLOYMENT_URL'')) \<longrightarrow>
       ?content = pre @ tag @ post
       \<and> mail_html m = pre @ tag @ approval_banner (m_env w) @ post"
  proof (intro allI impI, elim conjE)
    fix pre tag post
    assume inc: "str_includes ?content ''<body''"
      and srch: "search_body_tag ?content = Some (pre, tag, post)"
      and d1: "CHR ''$'' \<notin> set (env_text (m_env w ''GITHUB_RUN_ID''))"
      and d2: "CHR ''$'' \<notin> set (env_text (m_env w ''VERCEL_DEPLOYMENT_URL''))"
    from d1 have r: "CHR ''$'' \<notin> set runId"
      unfolding etext .
    from d2 have u: "CHR ''$'' \<notin> set url"
      unfolding etext .
    from injectApprovalButton_after_tag [OF inc srch r u]
    have "mail_html m = pre @ tag @ approval_banner (m_env w) @ post"
      by (simp only: m(3) banner)
    with search_body_tag_decomp [OF srch]
    show "?content = pre @ tag @ post
        \<and> mail_html m = pre @ tag @ approval_banner (m_env w) @ post"
      by (rule conjI)
  qed
  from True 1 m(2) 2 3 show ?thesis
    by blast
qed

theorem mailer_call_shapes_witness:
  "(\<exists>m. sent_mails (m_events (send_email_script
           (example_mailer_world ''false'' ''a@x.io,b@x.io'' ''<html><body><p>r</p></body></html>'')))
         = [m]
        \<and> mail_to m = ''a@x.io, b@x.io''
        \<and> mail_html m = ''<html><body><p>r</p></body></html>'')
   \<and> (\<exists>m. sent_mails (m_events (send_email_script
           (example_mailer_world ''false'' ''a@x.io,b@x.io'' [CHR 0x61, CHR 0xFF, CHR 0x62])))
         = [m]
        \<and> mail_to m = ''a@x.io, b@x.io''
        \<and> mail_html m = [CHR 0x61, CHR 0xEF, CHR 0xBF, CHR 0xBD, CHR 0x62])
   \<and> (\<exists>m. sent_mails (m_events (send_email_script
           (example_mailer_world ''true'' ''me@x.io'' ''<html><body><p>r</p></body></html>''))) = [m]
        \<and> mail_to m = ''me@x.io''
        \<and> mail_html m
            = ''<html><body>''
              @ approvalButtonHtml
                  (buildApprovalUrl ''42'' (fst (generateApprovalToken ''42'' ''s3cr3t'' []))
                     ''https://x.app'')
              @ ''<p>r</p></body></html>'')
   \<and> (\<exists>m. sent_mails (m_events (send_email_script
           (example_mailer_world ''true'' ''me@x.io'' ''<p>r</p>''))) = [m]
        \<and> mail_to m = ''me@x.io''
        \<and> mail_html m
            = approvalButtonHtml
                (buildApprovalUrl ''42'' (fst (generateApprovalToken ''42'' ''s3cr3t'' []))
                   ''https://x.app'')
              @ ''<p>r</p>'')"
proof (intro conjI)
  let ?doc = "''<html><body><p>r</p></body></html>''"
  let ?banner = "approvalButtonHtml
      (buildApprovalUrl ''42'' (fst (generateApprovalToken ''42'' ''s3cr3t'' [])) ''https://x.app'')"
  have two: "parse_recipients ''a@x.io,b@x.io'' \<noteq> []"
    by (simp only: parse_two_recipients) simp
  have one: "parse_recipients ''me@x.io'' \<noteq> []"
    by (simp only: parse_one_recipient) simp
  show "\<exists>m. sent_mails (m_events (send_email_script
                (example_mailer_world ''false'' ''a@x.io,b@x.io'' ?doc))) = [m]
        \<and> mail_to m = ''a@x.io, b@x.io'' \<and> mail_html m = ?doc"
  proof -
    let ?w = "example_mailer_world ''false'' ''a@x.io,b@x.io'' ?doc"
    have v: "missingVars (m_env ?w) = []"
      by (rule example_mailer_world_valid) simp
    have b: "\<not> IS_TEST_EMAIL (m_env ?w)"
      by (simp add: example_mailer_world_simps(1))
    have wf: "utf8_well_formed ?doc"
      by (intro utf8_well_formed.intros) (simp_all add: byte_val_def)
    from mailer_call_shapes [OF v example_mailer_world_simps(2,3) two]
    obtain m where "sent_mails (m_events (send_email_script ?w)) = [m]"
      "mail_to m = join '', '' (parse_recipients ''a@x.io,b@x.io'')"
      "\<not> IS_TEST_EMAIL (m_env ?w) \<longrightarrow> (utf8_well_formed ?doc \<longrightarrow> mail_html m = ?doc)"
      by blast
    with b wf show ?thesis
      by (simp add: parse_two_recipients)
  qed
  show "\<exists>m. sent_mails (m_events (send_email_script
                (example_mailer_world ''false'' ''a@x.io,b@x.io'' [CHR 0x61, CHR 0xFF, CHR 0x62])))
              = [m]
        \<and> mail_to m = ''a@x.io, b@x.io''
        \<and> mail_html m = [CHR 0x61, CHR 0xEF, CHR 0xBF, CHR 0xBD, CHR 0x62]"
  proof -
    let ?w = "example_mailer_world ''false'' ''a@x.io,b@x.io'' [CHR 0x61, CHR 0xFF, CHR 0x62]"
    have v: "missingVars (m_env ?w) = []"
      by (rule example_mailer_world_valid) simp
    have b: "\<not> IS_TEST_EMAIL (m_env ?w)"
      by (simp add: example_mailer_world_simps(1))
    from mailer_call_shapes [OF v example_mailer_world_simps(2,3) two]
    obtain m where "sent_mails (m_events (send_email_script ?w)) = [m]"
      "mail_to m = join '', '' (parse_recipients ''a@x.io,b@x.io'')"
      "\<not> IS_TEST_EMAIL (m_env ?w) \<longrightarrow>
         mail_html m = utf8_decode [CHR 0x61, CHR 0xFF, CHR 0x62]"
      by blast
    with b show ?thesis
      by (simp only: parse_two_recipients utf8_decode_ill_formed(1)) simp
  qed
  show "\<exists>m. sent_mails (m_events (send_email_script
                (example_mailer_world ''true'' ''me@x.io'' ?doc))) = [m]
        \<and> mail_to m = ''me@x.io''
        \<and> mail_html m = ''<html><body>'' @ ?banner @ ''<p>r</p></body></html>''"
  proof -
    let ?w = "example_mailer_world ''true'' ''me@x.io'' ?doc"
    have v: "missingVars (m_env ?w) = []"
      by (rule example_mailer_world_valid) simp
    have t: "IS_TEST_EMAIL (m_env ?w)"
      by (simp add: example_mailer_world_simps(1))
    have inc: "str_includes (utf8_decode ?doc) ''<body''"
      by (simp only: utf8_decode_examples) (simp add: starts_with_def)
    have srch: "search_body_tag (utf8_decode ?doc)
        = Some (''<html>'', ''<body>'', ''<p>r</p></body></html>'')"
      by (simp only: utf8_decode_examples)
        (simp add: match_body_tag_def starts_with_ci_def to_upper_ascii_def)
    have d: "CHR ''$'' \<notin> set (env_text (m_env ?w ''GITHUB_RUN_ID''))"
      "CHR ''$'' \<notin> set (env_text (m_env ?w ''VERCEL_DEPLOYMENT_URL''))"
      by (simp_all add: example_mailer_world_simps env_text_def)
    from mailer_call_shapes [OF v example_mailer_world_simps(2,3) one]
    obtain m where m: "sent_mails (m_events (send_email_script ?w)) = [m]"
      "mail_to m = join '', '' (parse_recipients ''me@x.io'')"
      and after: "IS_TEST_EMAIL (m_env ?w) \<longrightarrow>
        (\<forall>pre tag post.
            str_includes (utf8_decode ?doc) ''<body''
            \<and> search_body_tag (utf8_decode ?doc) = Some (pre, tag, post)
            \<and> CHR ''$'' \<notin> set (env_text (m_env ?w ''GITHUB_RUN_ID''))
            \<and> CHR ''$'' \<notin> set (env_text (m_env ?w ''VERCEL_DEPLOYMENT_URL'')) \<longrightarrow>
            utf8_decode ?doc = pre @ tag @ post
            \<and> mail_html m = pre @ tag @ approval_banner (m_env ?w) @ post)"
      by blast
    from after t inc srch d
    have "mail_html m = ''<html>'' @ ''<body>'' @ approval_banner (m_env ?w) @ ''<p>r</p></body></html>''"
      by blast
    then have "mail_html m = ''<html><body>'' @ ?banner @ ''<p>r</p></body></html>''"
      by (simp only: example_banner) simp
    with m show ?thesis
      by (simp add: parse_one_recipient)
  qed
  show "\<exists>m. sent_mails (m_events (send_email_script
                (example_mailer_world ''true'' ''me@x.io'' ''<p>r</p>''))) = [m]
        \<and> mail_to m = ''me@x.io'' \<and> mail_html m = ?banner @ ''<p>r</p>''"
  proof -
    let ?w = "example_mailer_world ''true'' ''me@x.io'' ''<p>r</p>''"
    have v: "missingVars (m_env ?w) = []"
      by (rule example_mailer_world_valid) simp
    have t: "IS_TEST_EMAIL (m_env ?w)"
      by (simp add: example_mailer_world_simps(1))
    have ni: "\<not> str_includes (utf8_decode ''<p>r</p>'') ''<body''"
      by (simp only: utf8_decode_examples) (simp add: starts_with_def)
    have nt: "search_body_tag (utf8_decode ''<p>r</p>'') = None"
      by (simp only: utf8_decode_examples)
        (simp add: match_body_tag_def starts_with_ci_def to_upper_ascii_def)
    from mailer_call_shapes [OF v example_mailer_world_simps(2,3) one]
    obtain m where m: "sent_mails (m_events (send_email_script ?w)) = [m]"
      "mail_to m = join '', '' (parse_recipients ''me@x.io'')"
      and pre: "IS_TEST_EMAIL (m_env ?w) \<longrightarrow>
        (\<not> str_includes (utf8_decode ''<p>r</p>'') ''<body''
         \<and> search_body_tag (utf8_decode ''<p>r</p>'') = None \<longrightarrow>
           mail_html m = approval_banner (m_env ?w) @ utf8_decode ''<p>r</p>'')"
      by blast
    from pre t ni nt have "mail_html m = approval_banner (m_env ?w) @ utf8_decode ''<p>r</p>''"
      by blast
    then have "mail_html m = ?banner @ ''<p>r</p>''"
      by (simp only: example_banner utf8_decode_examples)
    with m show ?thesis
      by (simp add: parse_one_recipient)
  qed
qed

section \<open>Properties of the fetcher\<close>

lemma bind_res_simps [simp]:
  "bind_res (Inl e) f = Inl e"
  "bind_res (Inr v) f = f v"
  by (simp_all add: bind_res_def)


lemma get_prop_present: "\<not> nullish v \<Longrightarrow> get_prop v k = Inr (opt_prop v k)"
  by (cases v) (simp_all add: get_prop_def opt_prop_def nullish_def)

lemma get_prop_obj: "get_prop (JObj kvs) k = Inr (own_prop kvs k)"
  by (simp add: get_prop_def)

lemma map_plain_text_ok:
  "list_all text_ok ts \<Longrightarrow>
     \<exists>vs. map_plain_text ts = Inr vs
          \<and> list_all (\<lambda>v. case v of JArr xs \<Rightarrow> False | JObj kvs \<Rightarrow> False | _ \<Rightarrow> True) vs"
proof (induction ts)
  case Nil
  then show ?case by simp
next
  case (Cons t ts)
  then obtain vs where "map_plain_text ts = Inr vs"
    "list_all (\<lambda>v. case v of JArr xs \<Rightarrow> False | JObj kvs \<Rightarrow> False | _ \<Rightarrow> True) vs"
    by auto
  moreover from Cons.prems have "\<not> nullish t"
    and "case opt_prop t ''plain_text'' of JArr xs \<Rightarrow> False | JObj kvs \<Rightarrow> False | _ \<Rightarrow> True"
    by (simp_all add: text_ok_def)
  ultimately show ?case
    by (simp add: get_prop_present)
qed

lemma join_elems_primitive:
  "list_all (\<lambda>v. case v of JArr xs \<Rightarrow> False | JObj kvs \<Rightarrow> False | _ \<Rightarrow> True) vs \<Longrightarrow>
     \<exists>s. join_elems sep vs = Inr s"
proof (induction vs)
  case Nil
  then show ?case by simp
next
  case (Cons v vs)
  then obtain r where r: "join_elems sep vs = Inr r"
    by auto
  from Cons.prems have "case v of JArr xs \<Rightarrow> False | JObj kvs \<Rightarrow> False | _ \<Rightarrow> True"
    by simp
  then show ?case
    using r by (cases v) simp_all
qed

lemma updates_of_ok:
  assumes "\<not> nullish props"
    and "let rich_text = opt_prop (opt_prop props ''Updates'') ''rich_text''
         in nullish rich_text \<or> (case rich_text of JArr ts \<Rightarrow> list_all text_ok ts | _ \<Rightarrow> False)"
  shows "\<exists>u. updates_of props = Inr u"
proof (cases "nullish (opt_prop (opt_prop props ''Updates'') ''rich_text'')")
  case True
  with assms(1) show ?thesis
    by (simp add: updates_of_def get_prop_present)
next
  case False
  with assms(2) obtain ts where rt: "opt_prop (opt_prop props ''Updates'') ''rich_text'' = JArr ts"
    and ok: "list_all text_ok ts"
    by (auto simp: Let_def split: json.splits)
  from map_plain_text_ok [OF ok] obtain vs where vs: "map_plain_text ts = Inr vs"
    "list_all (\<lambda>v. case v of JArr xs \<Rightarrow> False | JObj kvs \<Rightarrow> False | _ \<Rightarrow> True) vs"
    by blast
  from join_elems_primitive [OF vs(2)] obtain s where "join_elems [] vs = Inr s"
    by blast
  with assms(1) rt vs(1) False show ?thesis
    by (simp add: updates_of_def get_prop_present)
qed

lemma normalize_item_ok:
  assumes "well_formed_item it"
  shows "\<exists>r. normalize_item it = Inr r
           \<and> item_name r = or_else (raw_name it) (JStr ''Untitled'')
           \<and> item_status r = or_else (raw_status it) (JStr ''No status'')
           \<and> item_priority r = or_else (raw_priority it) (JStr ''No priority'')
           \<and> item_client r = or_else (raw_client it) (JStr ''Unknown'')
           \<and> get_prop it ''id'' = Inr (item_id r) \<and> get_prop it ''url'' = Inr (item_url r)"
proof -
  from assms obtain kvs where it: "it = JObj kvs"
    by (auto simp: well_formed_item_def split: json.splits)
  let ?props = "own_prop kvs ''properties''"
  from assms it have props: "\<not> nullish ?props"
    and upd: "let rich_text = opt_prop (opt_prop ?props ''Updates'') ''rich_text''
         in nullish rich_text \<or> (case rich_text of JArr ts \<Rightarrow> list_all text_ok ts | _ \<Rightarrow> False)"
    by (simp_all add: well_formed_item_def)
  from updates_of_ok [OF props upd] obtain u where "updates_of ?props = Inr u"
    by blast
  then show ?thesis
    using props
    by (simp add: normalize_item_def it get_prop_obj get_prop_present
        raw_name_def raw_status_def raw_priority_def raw_client_def opt_prop_def [of "JObj kvs"])
qed

lemma map_items_ok:
  assumes "list_all well_formed_item raw"
  shows "\<exists>items. map_items raw = Inr items \<and> length items = length raw
           \<and> (\<forall>i < length raw.
                 item_name (items ! i) = or_else (raw_name (raw ! i)) (JStr ''Untitled'')
                 \<and> item_status (items ! i) = or_else (raw_status (raw ! i)) (JStr ''No status'')
                 \<and> item_priority (items ! i) = or_else (raw_priority (raw ! i)) (JStr ''No priority'')
                 \<and> item_client (items ! i) = or_else (raw_client (raw ! i)) (JStr ''Unknown''))"
  using assms
proof (induction raw)
  case Nil
  then show ?case by simp
next
  case (Cons it raw)
  then obtain items where items: "map_items raw = Inr items" "length items = length raw"
    "\<forall>i < length raw.
        item_name (items ! i) = or_else (raw_name (raw ! i)) (JStr ''Untitled'')
        \<and> item_status (items ! i) = or_else (raw_status (raw ! i)) (JStr ''No status'')
        \<and> item_priority (items ! i) = or_else (raw_priority (raw ! i)) (JStr ''No priority'')
        \<and> item_client (items ! i) = or_else (raw_client (raw ! i)) (JStr ''Unknown'')"
    by auto
  from Cons.prems have "well_formed_item it"
    by simp
  from normalize_item_ok [OF this] obtain r where r: "normalize_item it = Inr r"
    "item_name r = or_else (raw_name it) (JStr ''Untitled'')"
    "item_status r = or_else (raw_status it) (JStr ''No status'')"
    "item_priority r = or_else (raw_priority it) (JStr ''No priority'')"
    "item_client r = or_else (raw_client it) (JStr ''Unknown'')"
    by blast
  have "map_items (it # raw) = Inr (r # items)"
    by (simp add: r(1) items(1))
  moreover have "length (r # items) = length (it # raw)"
    by (simp add: items(2))
  moreover have "\<forall>i < length (it # raw).
        item_name ((r # items) ! i) = or_else (raw_name ((it # raw) ! i)) (JStr ''Untitled'')
        \<and> item_status ((r # items) ! i) = or_else (raw_status ((it # raw) ! i)) (JStr ''No status'')
        \<and> item_priority ((r # items) ! i)
            = or_else (raw_priority ((it # raw) ! i)) (JStr ''No priority'')
        \<and> item_client ((r # items) ! i) = or_else (raw_client ((it # raw) ! i)) (JStr ''Unknown'')"
  proof (intro allI impI)
    fix i
    assume "i < length (it # raw)"
    then show "item_name ((r # items) ! i) = or_else (raw_name ((it # raw) ! i)) (JStr ''Untitled'')
        \<and> item_status ((r # items) ! i) = or_else (raw_status ((it # raw) ! i)) (JStr ''No status'')
        \<and> item_priority ((r # items) ! i)
            = or_else (raw_priority ((it # raw) ! i)) (JStr ''No priority'')
        \<and> item_client ((r # items) ! i) = or_else (raw_client ((it # raw) ! i)) (JStr ''Unknown'')"
      using r(2-5) items(3) by (cases i) simp_all
  qed
  ultimately show ?case
    by blast
qed


lemma requests_made_simps [simp]:
  "requests_made [] = []"
  "requests_made (FRequest r # evs) = r # requests_made evs"
  "requests_made (FLog s # evs) = requests_made evs"
  "requests_made (FError s # evs) = requests_made evs"
  "requests_made (FExists s # evs) = requests_made evs"
  "requests_made (FMkdir s # evs) = requests_made evs"
  "requests_made (FWriteFile s c # evs) = requests_made evs"
  "requests_made (evs @ evs') = requests_made evs @ requests_made evs'"
  by (simp_all add: requests_made_def)

lemma fs_touched_simps [simp]:
  "fs_touched [] = False"
  "fs_touched (FRequest r # evs) = fs_touched evs"
  "fs_touched (FLog s # evs) = fs_touched evs"
  "fs_touched (FError s # evs) = fs_touched evs"
  "fs_touched (FExists s # evs) = fs_touched evs"
  "fs_touched (FMkdir s # evs) = True"
  "fs_touched (FWriteFile s c # evs) = True"
  "fs_touched (evs @ evs') = (fs_touched evs \<or> fs_touched evs')"
  by (simp_all add: fs_touched_def)

lemma FRequest_in_requests_made: "FRequest q \<in> set evs \<longleftrightarrow> q \<in> set (requests_made evs)"
proof (induction evs)
  case Nil
  then show ?case by simp
next
  case (Cons ev evs)
  then show ?case by (cases ev) auto
qed

lemma fetch_fail_simps [simp]:
  "f_exit (fetch_fail w evs msg) = 1"
  "f_events (fetch_fail w evs msg) = evs @ [FError (''Error fetching Notion data: '' @ msg)]"
  "f_files_after (fetch_fail w evs msg) = f_files w"
  "f_returned (fetch_fail w evs msg) = None"
  by (simp_all add: fetch_fail_def)

lemma upstream_fail_simps [simp]:
  "f_exit (upstream_fail w evs what res) = 1"
  "f_events (upstream_fail w evs what res)
     = evs @ [FError (what @ string_of_nat (resp_status res)), FError (''Response: '' @ resp_text res)]"
  "f_files_after (upstream_fail w evs what res) = f_files w"
  "f_returned (upstream_fail w evs what res) = None"
  by (simp_all add: upstream_fail_def)

lemma persist_requests:
  "requests_made (f_events (persist w evs t items)) = requests_made evs"
  by (simp add: persist_def Let_def split: option.splits)


lemma persist_ok:
  assumes "f_exists w (path_join (f_cwd w) ''data'') \<or> f_mkdir_error w = None"
    and "f_write_error w = None"
  shows "\<exists>out. f_returned (persist w evs t items) = Some out
           \<and> f_exit (persist w evs t items) = 0
           \<and> out_items out = items \<and> out_itemCount out = length items
           \<and> f_files_after (persist w evs t items)
                (path_join (path_join (f_cwd w) ''data'') ''notion-raw.json'')
              = Some (f_stringify w out)"
  using assms by (auto simp: persist_def Let_def)

lemma query_stage_cases:
  "(\<exists>msg. query_stage w evs t
            = fetch_fail w (evs @ [FLog ''Querying database...'', FRequest (query_request w)]) msg)
   \<or> (\<exists>res. f_fetch w (query_request w) = Resolved res \<and> \<not> resp_ok res
         \<and> query_stage w evs t
            = upstream_fail w (evs @ [FLog ''Querying database...'', FRequest (query_request w)])
                ''Database query failed: '' res)
   \<or> (\<exists>res n msg. f_fetch w (query_request w) = Resolved res \<and> resp_ok res
         \<and> query_stage w evs t
            = fetch_fail w (evs @ [FLog ''Querying database...'', FRequest (query_request w)]
                              @ [FLog (''Found '' @ n @ '' items in database'')]) msg)
   \<or> (\<exists>res dbData raw items n. f_fetch w (query_request w) = Resolved res \<and> resp_ok res
         \<and> resp_json res = Inr dbData \<and> get_prop dbData ''results'' = Inr (JArr raw)
         \<and> map_items raw = Inr items
         \<and> query_stage w evs t
            = persist w (evs @ [FLog ''Querying database...'', FRequest (query_request w)]
                           @ [FLog (''Found '' @ n @ '' items in database'')]) t items)"
  by (auto simp: query_stage_def Let_def bind_res_def
      split: fetch_result.splits sum.splits prod.splits json.splits)

lemma query_stage_nonok:
  "f_fetch w (query_request w) = Resolved res \<Longrightarrow> \<not> resp_ok res \<Longrightarrow>
     query_stage w evs t
       = upstream_fail w (evs @ [FLog ''Querying database...'', FRequest (query_request w)])
           ''Database query failed: '' res"
  by (simp add: query_stage_def Let_def)

lemma query_stage_requests:
  "requests_made (f_events (query_stage w evs t)) = requests_made evs @ [query_request w]"
  using query_stage_cases [of w evs t] by (auto simp: persist_requests)

lemma fetchNotionData_cases:
  "(\<exists>msg. fetchNotionData w
            = fetch_fail w [FLog ''Fetching Notion database metadata...'', FRequest (meta_request w)] msg)
   \<or> (\<exists>res. f_fetch w (meta_request w) = Resolved res \<and> \<not> resp_ok res
         \<and> fetchNotionData w
            = upstream_fail w [FLog ''Fetching Notion database metadata...'', FRequest (meta_request w)]
                ''Database fetch failed: '' res)
   \<or> (\<exists>res t s. f_fetch w (meta_request w) = Resolved res \<and> resp_ok res
         \<and> fetchNotionData w
            = query_stage w ([FLog ''Fetching Notion database metadata...'', FRequest (meta_request w)]
                              @ [FLog (''Database title: '' @ s)]) t)"
  by (auto simp: fetchNotionData_def Let_def bind_res_def
      split: fetch_result.splits sum.splits prod.splits)

lemma meta_nonok:
  "f_fetch w (meta_request w) = Resolved res \<Longrightarrow> \<not> resp_ok res \<Longrightarrow>
     fetchNotionData w
       = upstream_fail w [FLog ''Fetching Notion database metadata...'', FRequest (meta_request w)]
           ''Database fetch failed: '' res"
  by (simp add: fetchNotionData_def Let_def)

lemma upstream_failure_run:
  assumes "FRequest q \<in> set (f_events (fetchNotionData w))"
    and "f_fetch w q = Resolved res" and "\<not> resp_ok res"
  shows "f_exit (fetchNotionData w) = 1
         \<and> FError (''Response: '' @ resp_text res) \<in> set (f_events (fetchNotionData w))
         \<and> \<not> fs_touched (f_events (fetchNotionData w))
         \<and> f_files_after (fetchNotionData w) = f_files w
         \<and> f_returned (fetchNotionData w) = None"
proof (cases "q = meta_request w")
  case True
  with assms(2) have "f_fetch w (meta_request w) = Resolved res"
    by simp
  from meta_nonok [OF this assms(3)] show ?thesis
    by simp
next
  case False
  let ?evs1 = "[FLog ''Fetching Notion database metadata...'', FRequest (meta_request w)]"
  from assms(1) have q: "q \<in> set (requests_made (f_events (fetchNotionData w)))"
    by (simp add: FRequest_in_requests_made)
  consider
    (rejected) msg where "fetchNotionData w = fetch_fail w ?evs1 msg"
  | (meta_bad) r where "fetchNotionData w = upstream_fail w ?evs1 ''Database fetch failed: '' r"
  | (meta_ok) t s where
      "fetchNotionData w = query_stage w (?evs1 @ [FLog (''Database title: '' @ s)]) t"
    using fetchNotionData_cases [of w] by blast
  then show ?thesis
  proof cases
    case rejected
    with q False show ?thesis
      by simp
  next
    case meta_bad
    with q False show ?thesis
      by simp
  next
    case meta_ok
    with q False have "q = query_request w"
      by (simp add: query_stage_requests)
    with assms(2) have "f_fetch w (query_request w) = Resolved res"
      by simp
    from query_stage_nonok [OF this assms(3)] meta_ok show ?thesis
      by simp
  qed
qed

lemma first_page_results:
  "get_prop (first_page coll) ''results'' = Inr (JArr (take 100 coll))"
  by (simp add: first_page_def get_prop_def own_prop_def)

lemma query_stage_first_page:
  assumes "f_fetch w (query_request w)
             = Resolved \<lparr>resp_status = 200, resp_text = [], resp_json = Inr (first_page coll)\<rparr>"
    and "map_items (take 100 coll) = Inr items"
  shows "query_stage w evs t
           = persist w (evs @ [FLog ''Querying database...'', FRequest (query_request w)]
                          @ [FLog (''Found '' @ string_of_nat (length (take 100 coll))
                                     @ '' items in database'')]) t items"
  using assms
  by (simp add: query_stage_def Let_def resp_ok_def first_page_results length_text_def
      del: string_of_nat.simps length_take)

lemma fetch_first_page:
  assumes "\<not> env_missing (f_env w ''NOTION_API_TOKEN'')"
    and "\<not> env_missing (f_env w ''NOTION_DATABASE_ID'')"
    and "f_fetch w = workspace_database title coll"
    and "list_all well_formed_item (take 100 coll)"
    and "f_exists w (path_join (f_cwd w) ''data'') \<or> f_mkdir_error w = None"
    and "f_write_error w = None"
  shows "\<exists>out. f_returned (fetch_notion_script w) = Some out
           \<and> f_exit (fetch_notion_script w) = 0
           \<and> map_items (take 100 coll) = Inr (out_items out)
           \<and> out_itemCount out = min 100 (length coll)
           \<and> requests_made (f_events (fetch_notion_script w)) = [meta_request w, query_request w]
           \<and> f_files_after (fetch_notion_script w)
                (path_join (path_join (f_cwd w) ''data'') ''notion-raw.json'')
              = Some (f_stringify w out)"
proof -
  from map_items_ok [OF assms(4)] obtain items where items:
    "map_items (take 100 coll) = Inr items" "length items = length (take 100 coll)"
    by blast
  let ?dbTitle = "or_else (JStr title) (JStr ''Unknown Database'')"
  obtain s where s: "to_string ?dbTitle = Inr s"
    by (cases "falsy (JStr title)") (simp_all add: or_else_def)
  let ?evs = "[FLog ''Fetching Notion database metadata...'', FRequest (meta_request w)]
                @ [FLog (''Database title: '' @ s)]"
  have meta: "f_fetch w (meta_request w)
      = Resolved \<lparr>resp_status = 200, resp_text = [],
                  resp_json = Inr (JObj [(''object'', JStr ''database''),
                                         (''title'', JArr [JObj [(''plain_text'', JStr title)]])])\<rparr>"
    by (simp add: assms(3) workspace_database_def meta_request_def)
  have query: "f_fetch w (query_request w)
      = Resolved \<lparr>resp_status = 200, resp_text = [], resp_json = Inr (first_page coll)\<rparr>"
    by (simp add: assms(3) workspace_database_def query_request_def)
  have "fetchNotionData w = query_stage w ?evs ?dbTitle"
    using s
    by (simp add: fetchNotionData_def Let_def meta resp_ok_def get_prop_def own_prop_def
        opt_index0_def opt_prop_def)
  then have run: "fetch_notion_script w
      = persist w (?evs @ [FLog ''Querying database...'', FRequest (query_request w)]
                     @ [FLog (''Found '' @ string_of_nat (length (take 100 coll))
                                @ '' items in database'')]) ?dbTitle items"
    using assms(1,2) by (simp add: fetch_notion_script_def query_stage_first_page [OF query items(1)])
  from persist_ok [OF assms(5,6)] obtain out where out:
    "f_returned (fetch_notion_script w) = Some out" "f_exit (fetch_notion_script w) = 0"
    "out_items out = items" "out_itemCount out = length items"
    "f_files_after (fetch_notion_script w)
       (path_join (path_join (f_cwd w) ''data'') ''notion-raw.json'') = Some (f_stringify w out)"
    unfolding run by blast
  have "requests_made (f_events (fetch_notion_script w)) = [meta_request w, query_request w]"
    unfolding run by (simp add: persist_requests)
  with out items show ?thesis
    by (auto simp: min_def)
qed


lemma example_item_well_formed: "well_formed_item (example_item i p)"
  by (simp add: example_item_def well_formed_item_def own_prop_def opt_prop_def nullish_def
      text_ok_def)

lemma example_fetch_world_simps:
  "\<not> env_missing (f_env (example_fetch_world coll) ''NOTION_API_TOKEN'')"
  "\<not> env_missing (f_env (example_fetch_world coll) ''NOTION_DATABASE_ID'')"
  "f_fetch (example_fetch_world coll) = workspace_database ''Status'' coll"
  "f_exists (example_fetch_world coll) p \<or> f_mkdir_error (example_fetch_world coll) = None"
  "f_write_error (example_fetch_world coll) = None"
  by (simp_all add: example_fetch_world_def env_missing_def)

lemma metadata_answered:
  assumes "f_fetch w (meta_request w)
      = Resolved \<lparr>resp_status = 200, resp_text = [],
                  resp_json = Inr (JObj [(''object'', JStr ''database''),
                                         (''title'', JArr [JObj [(''plain_text'', JStr title)]])])\<rparr>"
  shows "\<exists>s. fetchNotionData w
           = query_stage w ([FLog ''Fetching Notion database metadata...'', FRequest (meta_request w)]
                             @ [FLog (''Database title: '' @ s)])
               (or_else (JStr title) (JStr ''Unknown Database''))"
proof -
  let ?dbTitle = "or_else (JStr title) (JStr ''Unknown Database'')"
  obtain s where s: "to_string ?dbTitle = Inr s"
    by (cases "falsy (JStr title)") (simp_all add: or_else_def)
  have "fetchNotionData w
      = query_stage w ([FLog ''Fetching Notion database metadata...'', FRequest (meta_request w)]
                        @ [FLog (''Database title: '' @ s)]) ?dbTitle"
    using s
    by (simp add: fetchNotionData_def Let_def assms resp_ok_def get_prop_def own_prop_def
        opt_index0_def opt_prop_def)
  then show ?thesis
    by blast
qed

text \<open>
  C6 (upstream-failure atomicity).  If a request the run issued (the metadata request or the
  query) is answered with a status outside 200..299, the script exits with a non-zero status,
  has printed the body of that response, has attempted neither to create the directory nor to
  write the artifact, leaves every file as it was and returns no batch.
\<close>

theorem upstream_failure_atomic:
  assumes "FRequest q \<in> set (f_events (fetch_notion_script w))"
    and "f_fetch w q = Resolved res" and "\<not> resp_ok res"
  shows "f_exit (fetch_notion_script w) \<noteq> 0
         \<and> FError (''Response: '' @ resp_text res) \<in> set (f_events (fetch_notion_script w))
         \<and> \<not> fs_touched (f_events (fetch_notion_script w))
         \<and> f_files_after (fetch_notion_script w) = f_files w
         \<and> f_returned (fetch_notion_script w) = None"
proof -
  from assms(1) have "fetch_notion_script w = fetchNotionData w"
    by (auto simp: fetch_notion_script_def split: if_splits)
  with assms upstream_failure_run [of q w res] show ?thesis
    by simp
qed

theorem upstream_failure_atomic_witness:
  "f_exit (fetch_notion_script
      ((example_fetch_world [])\<lparr>f_fetch := (\<lambda>r. Resolved
          \<lparr>resp_status = 404, resp_text = ''object_not_found'', resp_json = Inl ''Unexpected token''\<rparr>)\<rparr>))
     \<noteq> 0
   \<and> FError ''Response: object_not_found''
       \<in> set (f_events (fetch_notion_script
            ((example_fetch_world [])\<lparr>f_fetch := (\<lambda>r. Resolved
               \<lparr>resp_status = 404, resp_text = ''object_not_found'',
                resp_json = Inl ''Unexpected token''\<rparr>)\<rparr>)))
   \<and> f_files_after (fetch_notion_script
        ((example_fetch_world [])\<lparr>f_fetch := (\<lambda>r. Resolved
           \<lparr>resp_status = 404, resp_text = ''object_not_found'',
            resp_json = Inl ''Unexpected token''\<rparr>)\<rparr>)) = Map.empty
   \<and> f_exit (fetch_notion_script
        ((example_fetch_world [])\<lparr>f_fetch := (\<lambda>r.
           if req_method r = ''POST''
           then Resolved \<lparr>resp_status = 502, resp_text = ''bad gateway'', resp_json = Inl ''Unexpected token''\<rparr>
           else workspace_database ''Status'' [] r)\<rparr>)) \<noteq> 0
   \<and> FError ''Response: bad gateway''
       \<in> set (f_events (fetch_notion_script
            ((example_fetch_world [])\<lparr>f_fetch := (\<lambda>r.
               if req_method r = ''POST''
               then Resolved \<lparr>resp_status = 502, resp_text = ''bad gateway'',
                               resp_json = Inl ''Unexpected token''\<rparr>
               else workspace_database ''Status'' [] r)\<rparr>)))
   \<and> \<not> fs_touched (f_events (fetch_notion_script
            ((example_fetch_world [])\<lparr>f_fetch := (\<lambda>r.
               if req_method r = ''POST''
               then Resolved \<lparr>resp_status = 502, resp_text = ''bad gateway'',
                               resp_json = Inl ''Unexpected token''\<rparr>
               else workspace_database ''Status'' [] r)\<rparr>)))"
proof -
  let ?res = "\<lparr>resp_status = 404, resp_text = ''object_not_found'',
                resp_json = Inl ''Unexpected token''\<rparr>"
  let ?w = "(example_fetch_world [])\<lparr>f_fetch := (\<lambda>r. Resolved ?res)\<rparr>"
  have script: "fetch_notion_script ?w = fetchNotionData ?w"
    by (simp add: fetch_notion_script_def example_fetch_world_def env_missing_def)
  have bad: "\<not> resp_ok ?res"
    by (simp add: resp_ok_def)
  have "fetchNotionData ?w
      = upstream_fail ?w [FLog ''Fetching Notion database metadata...'', FRequest (meta_request ?w)]
          ''Database fetch failed: '' ?res"
    by (rule meta_nonok) (simp_all add: bad)
  then have req: "FRequest (meta_request ?w) \<in> set (f_events (fetch_notion_script ?w))"
    by (simp add: script)
  have ans: "f_fetch ?w (meta_request ?w) = Resolved ?res"
    by simp
  have files: "f_files ?w = Map.empty"
    by (simp add: example_fetch_world_def)
  from upstream_failure_atomic [OF req ans bad] files
  have 1: "f_exit (fetch_notion_script ?w) \<noteq> 0
     \<and> FError ''Response: object_not_found'' \<in> set (f_events (fetch_notion_script ?w))
     \<and> f_files_after (fetch_notion_script ?w) = Map.empty"
    by simp
  let ?res' = "\<lparr>resp_status = 502, resp_text = ''bad gateway'',
                 resp_json = Inl ''Unexpected token''\<rparr>"
  let ?db = "\<lambda>r. if req_method r = ''POST'' then Resolved ?res'
                 else workspace_database ''Status'' [] r"
  let ?v = "(example_fetch_world [])\<lparr>f_fetch := ?db\<rparr>"
  let ?u = "(example_fetch_world [])\<lparr>f_fetch := workspace_database ''Status'' []\<rparr>"
  have script': "fetch_notion_script ?v = fetchNotionData ?v"
    by (simp add: fetch_notion_script_def example_fetch_world_def env_missing_def)
  have bad': "\<not> resp_ok ?res'"
    by (simp add: resp_ok_def)
  have ans': "f_fetch ?v (query_request ?v) = Resolved ?res'"
    by (simp add: query_request_def)
  have meta': "f_fetch ?v (meta_request ?v)
      = Resolved \<lparr>resp_status = 200, resp_text = [],
                  resp_json = Inr (JObj [(''object'', JStr ''database''),
                                         (''title'', JArr [JObj [(''plain_text'', JStr ''Status'')]])])\<rparr>"
    by (simp add: meta_request_def workspace_database_def)
  from metadata_answered [OF meta']
  obtain evs t where "fetchNotionData ?v = query_stage ?v evs t"
    by blast
  then have "requests_made (f_events (fetch_notion_script ?v))
      = requests_made evs @ [query_request ?v]"
    by (simp only: script' query_stage_requests)
  then have req': "FRequest (query_request ?v) \<in> set (f_events (fetch_notion_script ?v))"
    by (simp add: FRequest_in_requests_made)
  from upstream_failure_atomic [OF req' ans' bad']
  have 2: "f_exit (fetch_notion_script ?v) \<noteq> 0
     \<and> FError ''Response: bad gateway'' \<in> set (f_events (fetch_notion_script ?v))
     \<and> \<not> fs_touched (f_events (fetch_notion_script ?v))"
    by simp
  from 1 2 show ?thesis
    by blast
qed




text \<open>
  C8, as stated, fails: against a collection of 101 items the run issues the two requests and
  nothing more, and returns 100 items.
\<close>

theorem pagination_incomplete:
  "length big_collection = 101
   \<and> map_option out_itemCount (f_returned (fetch_notion_script (example_fetch_world big_collection)))
       = Some 100
   \<and> requests_made (f_events (fetch_notion_script (example_fetch_world big_collection)))
       = [meta_request (example_fetch_world big_collection),
          query_request (example_fetch_world big_collection)]"
proof -
  let ?w = "example_fetch_world big_collection"
  have len: "length big_collection = 101"
    unfolding big_collection_def length_map length_upt by simp
  have "\<forall>it \<in> set big_collection. well_formed_item it"
  proof
    fix it
    assume "it \<in> set big_collection"
    then obtain i where "it = example_item (string_of_nat i) ''High''"
      unfolding big_collection_def set_map by blast
    then show "well_formed_item it"
      by (simp only: example_item_well_formed)
  qed
  then have wf: "list_all well_formed_item (take 100 big_collection)"
    unfolding list_all_iff by (meson in_set_takeD)
  from fetch_first_page [OF example_fetch_world_simps(1,2,3) wf example_fetch_world_simps(4,5)]
  obtain out where out: "f_returned (fetch_notion_script ?w) = Some out"
    "out_itemCount out = min 100 (length big_collection)"
    "requests_made (f_events (fetch_notion_script ?w)) = [meta_request ?w, query_request ?w]"
    by blast
  from out(2) have "out_itemCount out = 100"
    by (simp only: len)
  with out(1,3) len show ?thesis
    by simp
qed

text \<open>
  C8 (pagination), amended.  Against the workspace database the run issues exactly one query,
  with \<^verbatim>\<open>page_size\<close> 100 and no cursor, and returns and persists the normalised first page:
  the first \<open>min 100 n\<close> items of a collection of \<open>n\<close>.  A collection of at most 100 items is
  retrieved whole.
\<close>

theorem single_page_fetch:
  assumes "\<not> env_missing (f_env w ''NOTION_API_TOKEN'')"
    and "\<not> env_missing (f_env w ''NOTION_DATABASE_ID'')"
    and "f_fetch w = workspace_database title coll"
    and "list_all well_formed_item (take 100 coll)"
    and "f_exists w (path_join (f_cwd w) ''data'') \<or> f_mkdir_error w = None"
    and "f_write_error w = None"
  shows "\<exists>out. f_returned (fetch_notion_script w) = Some out
           \<and> requests_made (f_events (fetch_notion_script w)) = [meta_request w, query_request w]
           \<and> req_body (query_request w) = Some (CHR ''{'' # CHR 0x22 # ''page_size'' @ CHR 0x22 # '':100}'')
           \<and> map_items (take 100 coll) = Inr (out_items out)
           \<and> out_itemCount out = min 100 (length coll)
           \<and> (length coll \<le> 100 \<longrightarrow> map_items coll = Inr (out_items out))
           \<and> f_files_after (fetch_notion_script w)
                (path_join (path_join (f_cwd w) ''data'') ''notion-raw.json'')
              = Some (f_stringify w out)"
proof -
  from fetch_first_page [OF assms] obtain out where out:
    "f_returned (fetch_notion_script w) = Some out"
    "map_items (take 100 coll) = Inr (out_items out)"
    "out_itemCount out = min 100 (length coll)"
    "requests_made (f_events (fetch_notion_script w)) = [meta_request w, query_request w]"
    "f_files_after (fetch_notion_script w)
       (path_join (path_join (f_cwd w) ''data'') ''notion-raw.json'') = Some (f_stringify w out)"
    by blast
  have "req_body (query_request w)
          = Some (CHR ''{'' # CHR 0x22 # ''page_size'' @ CHR 0x22 # '':100}'')"
    by (simp add: query_request_def)
  moreover have "length coll \<le> 100 \<longrightarrow> map_items coll = Inr (out_items out)"
    using out(2) by (cases "length coll \<le> 100") simp_all
  ultimately show ?thesis
    using out by blast
qed

theorem single_page_fetch_witness:
  "\<exists>out. f_returned (fetch_notion_script
              (example_fetch_world [example_item ''1'' ''High'', example_item ''2'' ''Low'']))
            = Some out
     \<and> out_itemCount out = 2
     \<and> map_items [example_item ''1'' ''High'', example_item ''2'' ''Low''] = Inr (out_items out)"
proof -
  let ?coll = "[example_item ''1'' ''High'', example_item ''2'' ''Low'']"
  have wf: "list_all well_formed_item (take 100 ?coll)"
    by (simp add: example_item_well_formed)
  from single_page_fetch [OF example_fetch_world_simps(1,2,3) wf example_fetch_world_simps(4,5)]
  obtain out where "f_returned (fetch_notion_script (example_fetch_world ?coll)) = Some out"
    "out_itemCount out = min 100 (length ?coll)"
    "length ?coll \<le> 100 \<longrightarrow> map_items ?coll = Inr (out_items out)"
    by blast
  then show ?thesis
    by simp
qed

section \<open>Configuration\<close>

text \<open>
  C7 (configuration fail-fast).  When \<^verbatim>\<open>NOTION_API_TOKEN\<close> or \<^verbatim>\<open>NOTION_DATABASE_ID\<close>
  is absent or empty, the fetcher exits with status 1 having done nothing but print one error
  line: no request, no directory, no file.  When \<^verbatim>\<open>GMAIL_FROM_EMAIL\<close>,
  \<^verbatim>\<open>GMAIL_APP_PASSWORD\<close> or \<^verbatim>\<open>EMAIL_RECIPIENTS\<close> is absent or empty, or the test flag
  is set and \<^verbatim>\<open>APPROVAL_TOKEN_SECRET\<close>, \<^verbatim>\<open>VERCEL_DEPLOYMENT_URL\<close> or
  \<^verbatim>\<open>GITHUB_RUN_ID\<close> is, the mailer does the same: no file read, no send.
\<close>

theorem configuration_fail_fast:
  "(env_missing (f_env fw ''NOTION_API_TOKEN'') \<or> env_missing (f_env fw ''NOTION_DATABASE_ID'') \<longrightarrow>
      f_exit (fetch_notion_script fw) = 1
      \<and> (\<exists>msg. f_events (fetch_notion_script fw) = [FError msg])
      \<and> f_files_after (fetch_notion_script fw) = f_files fw
      \<and> f_returned (fetch_notion_script fw) = None)
   \<and> (env_missing (m_env mw ''GMAIL_FROM_EMAIL'') \<or> env_missing (m_env mw ''GMAIL_APP_PASSWORD'')
        \<or> env_missing (m_env mw ''EMAIL_RECIPIENTS'')
        \<or> (IS_TEST_EMAIL (m_env mw)
            \<and> (env_missing (m_env mw ''APPROVAL_TOKEN_SECRET'')
                \<or> env_missing (m_env mw ''VERCEL_DEPLOYMENT_URL'')
                \<or> env_missing (m_env mw ''GITHUB_RUN_ID''))) \<longrightarrow>
      m_exit (send_email_script mw) = 1
      \<and> (\<exists>msg. m_events (send_email_script mw) = [MError msg]))"
proof -
  have "missingVars (m_env mw) \<noteq> []"
    if "env_missing (m_env mw ''GMAIL_FROM_EMAIL'') \<or> env_missing (m_env mw ''GMAIL_APP_PASSWORD'')
        \<or> env_missing (m_env mw ''EMAIL_RECIPIENTS'')
        \<or> (IS_TEST_EMAIL (m_env mw)
            \<and> (env_missing (m_env mw ''APPROVAL_TOKEN_SECRET'')
                \<or> env_missing (m_env mw ''VERCEL_DEPLOYMENT_URL'')
                \<or> env_missing (m_env mw ''GITHUB_RUN_ID'')))"
    using that by (auto simp: missingVars_def)
  then show ?thesis
    by (auto simp: fetch_notion_script_def send_email_script_def)
qed

theorem configuration_fail_fast_witness:
  "f_exit (fetch_notion_script
             ((example_fetch_world [])\<lparr>f_env := [''NOTION_API_TOKEN'' \<mapsto> ''secret_tok'']\<rparr>)) = 1
   \<and> requests_made (f_events (fetch_notion_script
         ((example_fetch_world [])\<lparr>f_env := [''NOTION_API_TOKEN'' \<mapsto> ''secret_tok'']\<rparr>))) = []
   \<and> \<not> fs_touched (f_events (fetch_notion_script
         ((example_fetch_world [])\<lparr>f_env := [''NOTION_API_TOKEN'' \<mapsto> ''secret_tok'']\<rparr>)))
   \<and> m_exit (send_email_script
         ((example_mailer_world ''true'' ''a@x.io'' ''<p>r</p>'')
            \<lparr>m_env := [''IS_TEST_EMAIL'' \<mapsto> ''true'', ''GMAIL_FROM_EMAIL'' \<mapsto> ''me@x.io'',
                       ''GMAIL_APP_PASSWORD'' \<mapsto> ''pw'', ''EMAIL_RECIPIENTS'' \<mapsto> ''a@x.io'',
                       ''APPROVAL_TOKEN_SECRET'' \<mapsto> ''s3cr3t'',
                       ''VERCEL_DEPLOYMENT_URL'' \<mapsto> ''https://x.app'']\<rparr>)) = 1
   \<and> sent_mails (m_events (send_email_script
         ((example_mailer_world ''true'' ''a@x.io'' ''<p>r</p>'')
            \<lparr>m_env := [''IS_TEST_EMAIL'' \<mapsto> ''true'', ''GMAIL_FROM_EMAIL'' \<mapsto> ''me@x.io'',
                       ''GMAIL_APP_PASSWORD'' \<mapsto> ''pw'', ''EMAIL_RECIPIENTS'' \<mapsto> ''a@x.io'',
                       ''APPROVAL_TOKEN_SECRET'' \<mapsto> ''s3cr3t'',
                       ''VERCEL_DEPLOYMENT_URL'' \<mapsto> ''https://x.app'']\<rparr>))) = []"
proof -
  let ?fw = "(example_fetch_world [])\<lparr>f_env := [''NOTION_API_TOKEN'' \<mapsto> ''secret_tok'']\<rparr>"
  let ?mw = "(example_mailer_world ''true'' ''a@x.io'' ''<p>r</p>'')
            \<lparr>m_env := [''IS_TEST_EMAIL'' \<mapsto> ''true'', ''GMAIL_FROM_EMAIL'' \<mapsto> ''me@x.io'',
                       ''GMAIL_APP_PASSWORD'' \<mapsto> ''pw'', ''EMAIL_RECIPIENTS'' \<mapsto> ''a@x.io'',
                       ''APPROVAL_TOKEN_SECRET'' \<mapsto> ''s3cr3t'',
                       ''VERCEL_DEPLOYMENT_URL'' \<mapsto> ''https://x.app'']\<rparr>"
  have f: "env_missing (f_env ?fw ''NOTION_DATABASE_ID'')"
    by (simp add: env_missing_def)
  have m: "IS_TEST_EMAIL (m_env ?mw)" "env_missing (m_env ?mw ''GITHUB_RUN_ID'')"
    by (simp_all add: env_missing_def IS_TEST_EMAIL_def)
  from configuration_fail_fast [of ?fw ?mw] f m
  obtain fmsg mmsg where "f_exit (fetch_notion_script ?fw) = 1"
    "f_events (fetch_notion_script ?fw) = [FError fmsg]"
    "m_exit (send_email_script ?mw) = 1" "m_events (send_email_script ?mw) = [MError mmsg]"
    by blast
  then show ?thesis
    by (simp add: sent_mails_simps)
qed

end
